theory Spec2Isabelle
  imports Main "HOL-Library.Sublist"
begin

section \<open>Python values used by both programs\<close>

text \<open>
  A Python \<open>str\<close> is a sequence of Unicode code points: slicing (\<open>s[:500]\<close>) and
  \<open>len\<close> count code points. It is modelled as the list of its code points, so that
  the glyphs of the titles count as one character each. \<open>py\<close> embeds an ASCII literal.
\<close>

type_synonym pystr = "nat list"

definition py :: "string \<Rightarrow> pystr" where
  "py s = map of_char s"

text \<open>\<open>sep.join(xs)\<close>.\<close>

fun join :: "pystr \<Rightarrow> pystr list \<Rightarrow> pystr" where
  "join sep [] = []"
| "join sep [x] = x"
| "join sep (x # y # ys) = x @ sep @ join sep (y # ys)"

text \<open>\<open>str(n)\<close> for an integer, as the f-strings of the footers apply it.\<close>

fun str_nat :: "nat \<Rightarrow> pystr" where
  "str_nat n = (if n < 10 then [48 + n] else str_nat (n div 10) @ [48 + n mod 10])"

declare str_nat.simps [simp del]

definition str_int :: "int \<Rightarrow> pystr" where
  "str_int i = (if i < 0 then 45 # str_nat (nat (- i)) else str_nat (nat i))"

text \<open>\<open>s.replace('Z', '+00:00')\<close>; \<open>Z\<close> is code point 90.\<close>

definition replace_Z :: "pystr \<Rightarrow> pystr" where
  "replace_Z s = concat (map (\<lambda>c. if c = 90 then py ''+00:00'' else [c]) s)"

text \<open>
  Truthiness of \<open>pr.get('body')\<close> and of \<open>pr["body"]\<close>: \<open>None\<close> (JSON \<open>null\<close>) and the
  empty string are false, every other string is true.
\<close>

definition truthy :: "pystr option \<Rightarrow> bool" where
  "truthy b = (case b of None \<Rightarrow> False | Some t \<Rightarrow> t \<noteq> [])"

section \<open>Remote items\<close>

text \<open>
  The objects of the GitHub API, with the fields the two programs read:
  \<open>id, number, title, body, html_url, user.login, user.avatar_url, created_at,
  labels[].name\<close>, for pull requests \<open>head.ref\<close> and \<open>base.ref\<close>, for the objects of
  the issues endpoint the optional \<open>pull_request\<close> marker. \<open>body\<close> is nullable.
  An absent \<open>labels\<close> key and an empty list are both false for \<open>pr.get('labels')\<close> and
  are both the empty list here. Only the presence of the \<open>pull_request\<close> key is
  read (\<open>'pull_request' not in issue\<close>), so the marker is a \<open>bool\<close>.
\<close>

record user =
  login :: pystr
  avatar_url :: pystr

record label =
  label_name :: pystr

record branch =
  ref :: pystr

record item =
  item_id :: int
  number :: int
  title :: pystr
  body :: "pystr option"
  html_url :: pystr
  user :: user
  created_at :: pystr
  labels :: "label list"

record pr = item +
  head :: branch
  base :: branch

record issue = item +
  pull_request :: bool

section \<open>Messages\<close>

record embed_field =
  name :: pystr
  val :: pystr
  inline :: bool

text \<open>
  A \<open>discord.Embed\<close> of the polling bot. \<open>embed_timestamp\<close> holds the string that
  \<open>datetime.fromisoformat\<close> has parsed: the date is determined by it.
\<close>

record embed =
  embed_title :: pystr
  embed_url :: pystr
  embed_description :: pystr
  embed_color :: nat
  embed_timestamp :: pystr
  embed_fields :: "embed_field list"
  embed_thumbnail :: pystr
  embed_footer :: pystr

text \<open>A dictionary of the list under \<open>"embeds"\<close> in the webhook payload of \<open>main.py\<close>.\<close>

record webhook_embed =
  wh_title :: pystr
  wh_url :: pystr
  wh_description :: pystr
  wh_color :: nat
  wh_fields :: "embed_field list"

record payload =
  embeds :: "webhook_embed list"

text \<open>The configuration read from the environment by \<open>vps_main.py\<close>.\<close>

record config =
  GITHUB_REPO :: pystr
  DISCORD_CHANNEL_ID :: int

text \<open>
  \<open>discord.Color.green()\<close> is \<open>0x2ECC71\<close> and \<open>discord.Color.red()\<close> is \<open>0xE74C3C\<close>
  in discord.py; \<open>main.py\<close> writes the same two numbers as literals.
\<close>

definition Color_green :: nat where
  "Color_green = 3066993"

definition Color_red :: nat where
  "Color_red = 15158332"

text \<open>The glyphs: U+1F500 for pull requests, U+1F41B for issues, U+2192 the arrow.\<close>

definition pr_title_prefix :: pystr where
  "pr_title_prefix = 128256 # py '' New Pull Request: ''"

definition issue_title_prefix :: pystr where
  "issue_title_prefix = 128027 # py '' New Issue: ''"

definition arrow :: pystr where
  "arrow = py '' '' @ [8594] @ py '' ''"

subsection \<open>The polling Notifier (\<open>vps_main.py\<close>)\<close>

text \<open>
  \<open>datetime.fromisoformat\<close> belongs to the Python library and the strings it accepts
  depend on the version of Python, so it is a parameter: \<open>fromisoformat s\<close> holds when
  the call returns a date, and the call raises \<open>ValueError\<close> otherwise. It is evaluated
  with the arguments of \<open>discord.Embed(...)\<close>, before the embed exists, and neither
  \<open>create_pr_embed\<close> nor its caller catches the exception. No other expression of
  the two functions raises on a Remote Item.
\<close>

datatype py_error = ValueError

definition create_pr_embed :: "(pystr \<Rightarrow> bool) \<Rightarrow> config \<Rightarrow> pr \<Rightarrow> py_error + embed" where
  "create_pr_embed fromisoformat cfg p =
     (if \<not> fromisoformat (replace_Z (created_at p)) then Inl ValueError
      else
     (let e = \<lparr> embed_title = pr_title_prefix @ title p,
                embed_url = html_url p,
                embed_description =
                  (if truthy (body p) then take 500 (the (body p))
                   else py ''No description provided'')
                  @ (if truthy (body p) \<and> length (the (body p)) > 500 then py ''...'' else []),
                embed_color = Color_green,
                embed_timestamp = replace_Z (created_at p),
                embed_fields = [],
                embed_thumbnail = [],
                embed_footer = [] \<rparr>;
          e = e \<lparr> embed_fields := embed_fields e
                 @ [\<lparr> name = py ''Repository'', val = GITHUB_REPO cfg, inline = True \<rparr>] \<rparr>;
          e = e \<lparr> embed_fields := embed_fields e
                 @ [\<lparr> name = py ''Author'', val = login (user p), inline = True \<rparr>] \<rparr>;
          e = e \<lparr> embed_fields := embed_fields e
                 @ [\<lparr> name = py ''Branch'', val = ref (head p) @ arrow @ ref (base p),
                      inline = False \<rparr>] \<rparr>;
          e = (if labels p \<noteq> [] then
                 (let ls = join (py '', '') (map label_name (labels p))
                  in if ls \<noteq> [] then
                       e \<lparr> embed_fields := embed_fields e
                           @ [\<lparr> name = py ''Labels'', val = ls, inline = False \<rparr>] \<rparr>
                     else e)
               else e);
          e = e \<lparr> embed_thumbnail := avatar_url (user p) \<rparr>;
          e = e \<lparr> embed_footer := py ''PR #'' @ str_int (number p) \<rparr>
      in Inr e))"

definition create_issue_embed ::
  "(pystr \<Rightarrow> bool) \<Rightarrow> config \<Rightarrow> issue \<Rightarrow> py_error + embed" where
  "create_issue_embed fromisoformat cfg i =
     (if \<not> fromisoformat (replace_Z (created_at i)) then Inl ValueError
      else
     (let e = \<lparr> embed_title = issue_title_prefix @ title i,
                embed_url = html_url i,
                embed_description =
                  (if truthy (body i) then take 500 (the (body i))
                   else py ''No description provided'')
                  @ (if truthy (body i) \<and> length (the (body i)) > 500 then py ''...'' else []),
                embed_color = Color_red,
                embed_timestamp = replace_Z (created_at i),
                embed_fields = [],
                embed_thumbnail = [],
                embed_footer = [] \<rparr>;
          e = e \<lparr> embed_fields := embed_fields e
                 @ [\<lparr> name = py ''Repository'', val = GITHUB_REPO cfg, inline = True \<rparr>] \<rparr>;
          e = e \<lparr> embed_fields := embed_fields e
                 @ [\<lparr> name = py ''Author'', val = login (user i), inline = True \<rparr>] \<rparr>;
          e = (if labels i \<noteq> [] then
                 (let ls = join (py '', '') (map label_name (labels i))
                  in if ls \<noteq> [] then
                       e \<lparr> embed_fields := embed_fields e
                           @ [\<lparr> name = py ''Labels'', val = ls, inline = False \<rparr>] \<rparr>
                     else e)
               else e);
          e = e \<lparr> embed_thumbnail := avatar_url (user i) \<rparr>;
          e = e \<lparr> embed_footer := py ''Issue #'' @ str_int (number i) \<rparr>
      in Inr e))"

subsection \<open>The one-shot webhook formatter (\<open>main.py\<close>)\<close>

record repository =
  full_name :: pystr

record pr_event =
  pr_action :: pystr
  pr_pull_request :: pr
  pr_repository :: repository

record issue_event =
  issue_action :: pystr
  issue_issue :: issue
  issue_repository :: repository

definition format_pr :: "pr_event \<Rightarrow> payload" where
  "format_pr event =
     (let p = pr_pull_request event;
          repo = full_name (pr_repository event)
      in \<lparr> embeds = [\<lparr>
             wh_title = pr_title_prefix @ title p,
             wh_url = html_url p,
             wh_description =
               (if truthy (body p) then take 500 (the (body p))
                else py ''No description provided''),
             wh_color = 3066993,
             wh_fields =
               [\<lparr> name = py ''Repository'', val = repo, inline = True \<rparr>,
                \<lparr> name = py ''Author'', val = login (user p), inline = True \<rparr>,
                \<lparr> name = py ''Branch'', val = ref (head p) @ arrow @ ref (base p),
                   inline = False \<rparr>] \<rparr>] \<rparr>)"

definition format_issue :: "issue_event \<Rightarrow> payload" where
  "format_issue event =
     (let i = issue_issue event;
          repo = full_name (issue_repository event)
      in \<lparr> embeds = [\<lparr>
             wh_title = issue_title_prefix @ title i,
             wh_url = html_url i,
             wh_description =
               (if truthy (body i) then take 500 (the (body i))
                else py ''No description provided''),
             wh_color = 15158332,
             wh_fields =
               [\<lparr> name = py ''Repository'', val = repo, inline = True \<rparr>,
                \<lparr> name = py ''Author'', val = login (user i), inline = True \<rparr>] \<rparr>] \<rparr>)"

section \<open>The polling bot (\<open>vps_main.py\<close>)\<close>

subsection \<open>State and environment\<close>

text \<open>Every \<open>print\<close> of the modelled functions, in the order of the source.\<close>

datatype log_event =
    LoadedSeen nat nat
  | ErrorLoading
  | ErrorSaving
  | RateLimitExceeded
  | GitHubApiError nat
  | ErrorFetching
  | ChannelNotFound
  | ErrorSending
  | CheckingRepository
  | NewPRDetected int pystr
  | NewIssueDetected int pystr

datatype message = EmbedMessage embed | TextMessage pystr

text \<open>
  The file \<open>seen_items.json\<close>. \<open>Missing\<close>: \<open>os.path.exists\<close> is false. \<open>Unreadable\<close>:
  \<open>open\<close> or \<open>json.load\<close> raises, or the document is not an object (\<open>data.get\<close> raises).
  \<open>Object p i\<close>: a JSON object, with what it holds under \<open>'prs'\<close> and \<open>'issues'\<close>.
  The arrays are read only through \<open>set(...)\<close>, so an array is the set of its elements;
  \<open>NotIterable\<close> is a value on which \<open>set(...)\<close> raises.
\<close>

datatype file_field = Absent | Ints "int set" | NotIterable

datatype seen_file = Missing | Unreadable | Object file_field file_field

text \<open>
  The two global sets, the state file, the messages accepted by the Discord channel
  \<open>DISCORD_CHANNEL_ID\<close> (oldest first) and the standard output.
\<close>

record world =
  seen_prs :: "int set"
  seen_issues :: "int set"
  SEEN_FILE :: seen_file
  channel :: "message list"
  log :: "log_event list"

text \<open>
  What the outside does at each call. \<open>GetRaises\<close>: \<open>session.get\<close> raises (transport
  failure). \<open>Response status j\<close>: a response arrived; \<open>j\<close> is what \<open>response.json()\<close>
  does when it is called, the decoded document or an exception (a body that is not
  JSON, a wrong content type).
\<close>

datatype 'a json_result = JsonRaises | Json 'a

datatype 'a http_result = GetRaises | Response nat "'a json_result"

text \<open>
  \<open>Sent\<close>: the channel was found and \<open>channel.send\<close> returned. \<open>NoChannel\<close>:
  \<open>bot.get_channel\<close> returned \<open>None\<close>. \<open>SendRaises\<close>: \<open>channel.send\<close> raised.
\<close>

datatype send_result = Sent | NoChannel | SendRaises

text \<open>
  \<open>WriteOk\<close>: the file was rewritten. \<open>OpenFails\<close>: \<open>open(SEEN_FILE, 'w')\<close> raised and
  the file is as before. \<open>DumpFails\<close>: \<open>json.dump\<close> raised after the file was truncated.
\<close>

datatype write_result = WriteOk | OpenFails | DumpFails

text \<open>
  The environment of one cycle: the two responses, the outcome of the \<open>k\<close>-th call of
  \<open>send_discord_message\<close> in the pull-request loop and in the issue loop, and the
  outcome of the write at the end.
\<close>

record cycle_env =
  pr_response :: "pr list http_result"
  issue_response :: "issue list http_result"
  pr_sends :: "nat \<Rightarrow> send_result"
  issue_sends :: "nat \<Rightarrow> send_result"
  save_result :: write_result

subsection \<open>Persistence\<close>

text \<open>\<open>set(data.get(key, []))\<close>; \<open>Inl ()\<close> is a raised exception.\<close>

definition get_set :: "file_field \<Rightarrow> unit + int set" where
  "get_set f = (case f of Absent \<Rightarrow> Inr {} | Ints A \<Rightarrow> Inr A | NotIterable \<Rightarrow> Inl ())"

text \<open>The body of the \<open>try\<close> of \<open>load_seen_items\<close>.\<close>

definition load_try :: "world \<Rightarrow> unit + world" where
  "load_try w =
     (case SEEN_FILE w of
        Missing \<Rightarrow> Inr w
      | Unreadable \<Rightarrow> Inl ()
      | Object p i \<Rightarrow>
          (case get_set p of
             Inl e \<Rightarrow> Inl e
           | Inr ps \<Rightarrow>
               (case get_set i of
                  Inl e \<Rightarrow> Inl e
                | Inr is \<Rightarrow>
                    Inr (w \<lparr> seen_prs := ps, seen_issues := is,
                             log := log w @ [LoadedSeen (card ps) (card is)] \<rparr>))))"

definition load_seen_items :: "world \<Rightarrow> world" where
  "load_seen_items w =
     (case load_try w of
        Inr w' \<Rightarrow> w'
      | Inl e \<Rightarrow> w \<lparr> seen_prs := {}, seen_issues := {}, log := log w @ [ErrorLoading] \<rparr>)"

definition save_seen_items :: "write_result \<Rightarrow> world \<Rightarrow> world" where
  "save_seen_items r w =
     (case r of
        WriteOk \<Rightarrow> w \<lparr> SEEN_FILE := Object (Ints (seen_prs w)) (Ints (seen_issues w)) \<rparr>
      | OpenFails \<Rightarrow> w \<lparr> log := log w @ [ErrorSaving] \<rparr>
      | DumpFails \<Rightarrow> w \<lparr> SEEN_FILE := Unreadable, log := log w @ [ErrorSaving] \<rparr>)"

subsection \<open>Fetching and sending\<close>

text \<open>
  \<open>fetch_github_data\<close>: the request headers do not change what is returned and are
  left out. \<open>None\<close> is the value the source returns for "unavailable".
\<close>

definition fetch_github_data :: "'a http_result \<Rightarrow> world \<Rightarrow> 'a option \<times> world" where
  "fetch_github_data r w =
     (case r of
        Response status j \<Rightarrow>
          if status = 200 then
            (case j of
               Json v \<Rightarrow> (Some v, w)
             | JsonRaises \<Rightarrow> (None, w \<lparr> log := log w @ [ErrorFetching] \<rparr>))
          else if status = 403 then (None, w \<lparr> log := log w @ [RateLimitExceeded] \<rparr>)
          else (None, w \<lparr> log := log w @ [GitHubApiError status] \<rparr>)
      | GetRaises \<Rightarrow> (None, w \<lparr> log := log w @ [ErrorFetching] \<rparr>))"

definition send_discord_message :: "send_result \<Rightarrow> embed \<Rightarrow> world \<Rightarrow> world" where
  "send_discord_message r e w =
     (case r of
        Sent \<Rightarrow> w \<lparr> channel := channel w @ [EmbedMessage e] \<rparr>
      | NoChannel \<Rightarrow> w \<lparr> log := log w @ [ChannelNotFound] \<rparr>
      | SendRaises \<Rightarrow> w \<lparr> log := log w @ [ErrorSending] \<rparr>)"

subsection \<open>The check cycle\<close>

text \<open>
  The partition loop, written twice in \<open>check_repository\<close> (once for \<open>prs\<close> and
  \<open>seen_prs\<close>, once for \<open>issues\<close> and \<open>seen_issues\<close>) with the same body:
  \<^verbatim>\<open>for pr in prs: if pr['id'] not in seen: new.append(pr); seen.add(pr['id'])\<close>.
  It returns the list \<open>new\<close> and the set \<open>seen\<close> after the loop.
\<close>

fun partition_new ::
  "'a item_scheme list \<Rightarrow> 'a item_scheme list \<Rightarrow> int set \<Rightarrow> 'a item_scheme list \<times> int set"
where
  "partition_new [] new seen = (new, seen)"
| "partition_new (x # xs) new seen =
     (if item_id x \<notin> seen then partition_new xs (new @ [x]) (insert (item_id x) seen)
      else partition_new xs new seen)"

text \<open>
  The two delivery loops, called on \<open>reversed(new_prs)\<close> and \<open>reversed(new_issues)\<close>;
  \<open>k\<close> counts the calls of \<open>send_discord_message\<close>. The embed is built outside any
  \<open>try\<close>, so a \<open>ValueError\<close> of \<open>create_pr_embed\<close> leaves the loop: the result is the
  exception, if one was raised, and the world at that point. The one-second sleep
  between messages is not modelled.
\<close>

fun notify_prs ::
  "(pystr \<Rightarrow> bool) \<Rightarrow> config \<Rightarrow> (nat \<Rightarrow> send_result) \<Rightarrow> nat \<Rightarrow> pr list \<Rightarrow> world
   \<Rightarrow> py_error option \<times> world" where
  "notify_prs fromisoformat cfg out k [] w = (None, w)"
| "notify_prs fromisoformat cfg out k (p # ps) w =
     (case create_pr_embed fromisoformat cfg p of
        Inl err \<Rightarrow> (Some err, w)
      | Inr e \<Rightarrow>
          (let w = send_discord_message (out k) e w;
               w = w \<lparr> log := log w @ [NewPRDetected (number p) (title p)] \<rparr>
           in notify_prs fromisoformat cfg out (Suc k) ps w))"

fun notify_issues ::
  "(pystr \<Rightarrow> bool) \<Rightarrow> config \<Rightarrow> (nat \<Rightarrow> send_result) \<Rightarrow> nat \<Rightarrow> issue list \<Rightarrow> world
   \<Rightarrow> py_error option \<times> world" where
  "notify_issues fromisoformat cfg out k [] w = (None, w)"
| "notify_issues fromisoformat cfg out k (i # is) w =
     (case create_issue_embed fromisoformat cfg i of
        Inl err \<Rightarrow> (Some err, w)
      | Inr e \<Rightarrow>
          (let w = send_discord_message (out k) e w;
               w = w \<lparr> log := log w @ [NewIssueDetected (number i) (title i)] \<rparr>
           in notify_issues fromisoformat cfg out (Suc k) is w))"

text \<open>Lines 166 to 171: the partition pass over the fetched pull requests.\<close>

definition mark_new_prs :: "pr list \<Rightarrow> world \<Rightarrow> pr list \<times> world" where
  "mark_new_prs prs w =
     (let (new_prs, seen) = partition_new prs [] (seen_prs w)
      in (new_prs, w \<lparr> seen_prs := seen \<rparr>))"

text \<open>Lines 186 to 193: the filter and the partition pass over the fetched issues.\<close>

definition mark_new_issues :: "issue list \<Rightarrow> world \<Rightarrow> issue list \<times> world" where
  "mark_new_issues issues_data w =
     (let issues = filter (\<lambda>issue. \<not> pull_request issue) issues_data;
          (new_issues, seen) = partition_new issues [] (seen_issues w)
      in (new_issues, w \<lparr> seen_issues := seen \<rparr>))"

text \<open>
  Lines 162 to 178 and 181 to 200. \<open>if prs:\<close> is false for \<open>None\<close> and for the empty
  list.
\<close>

definition check_prs ::
  "(pystr \<Rightarrow> bool) \<Rightarrow> config \<Rightarrow> cycle_env \<Rightarrow> world \<Rightarrow> py_error option \<times> world" where
  "check_prs fromisoformat cfg env w =
     (let (prs, w) = fetch_github_data (pr_response env) w
      in if prs \<noteq> None \<and> the prs \<noteq> [] then
           (let (new_prs, w) = mark_new_prs (the prs) w
            in notify_prs fromisoformat cfg (pr_sends env) 0 (rev new_prs) w)
         else (None, w))"

definition check_issues ::
  "(pystr \<Rightarrow> bool) \<Rightarrow> config \<Rightarrow> cycle_env \<Rightarrow> world \<Rightarrow> py_error option \<times> world" where
  "check_issues fromisoformat cfg env w =
     (let (issues_data, w) = fetch_github_data (issue_response env) w
      in if issues_data \<noteq> None \<and> the issues_data \<noteq> [] then
           (let (new_issues, w) = mark_new_issues (the issues_data) w
            in notify_issues fromisoformat cfg (issue_sends env) 0 (rev new_issues) w)
         else (None, w))"

text \<open>
  One run of \<open>check_repository\<close>. An exception of the pull-request loop skips the
  issues and \<open>save_seen_items\<close>; an exception of the issue loop skips
  \<open>save_seen_items\<close>. What was done before the exception stays done.
\<close>

definition check_repository ::
  "(pystr \<Rightarrow> bool) \<Rightarrow> config \<Rightarrow> cycle_env \<Rightarrow> world \<Rightarrow> py_error option \<times> world" where
  "check_repository fromisoformat cfg env w =
     (let w = w \<lparr> log := log w @ [CheckingRepository] \<rparr>;
          (raised, w) = check_prs fromisoformat cfg env w
      in case raised of
           Some err \<Rightarrow> (Some err, w)
         | None \<Rightarrow>
             (let (raised, w) = check_issues fromisoformat cfg env w
              in case raised of
                   Some err \<Rightarrow> (Some err, w)
                 | None \<Rightarrow> (None, save_seen_items (save_result env) w)))"

text \<open>
  The scheduler: one cycle per environment, in order. An exception that leaves
  \<open>check_repository\<close> ends the task of \<open>tasks.loop\<close>, so no later cycle runs.
\<close>

fun run_cycles ::
  "(pystr \<Rightarrow> bool) \<Rightarrow> config \<Rightarrow> cycle_env list \<Rightarrow> world \<Rightarrow> py_error option \<times> world" where
  "run_cycles fromisoformat cfg [] w = (None, w)"
| "run_cycles fromisoformat cfg (env # envs) w =
     (case check_repository fromisoformat cfg env w of
        (Some err, w') \<Rightarrow> (Some err, w')
      | (None, w') \<Rightarrow> run_cycles fromisoformat cfg envs w')"

subsection \<open>The reset command\<close>

text \<open>
  \<open>ctx_administrator\<close> is the outcome of the check \<open>has_permissions(administrator=True)\<close>:
  when it fails the body of the command does not run. \<open>reply_ok\<close> says whether the
  final \<open>ctx.send\<close> returned; it sends to the channel of the command, which the guard
  has compared with \<open>DISCORD_CHANNEL_ID\<close>. U+1F504 is the glyph of the reply.
\<close>

record ctx =
  ctx_channel_id :: int
  ctx_administrator :: bool

definition reset_reply :: pystr where
  "reset_reply = 128260 #
     py '' Tracking reset! Will notify about all current open PRs and issues on next check.''"

definition reset :: "config \<Rightarrow> ctx \<Rightarrow> write_result \<Rightarrow> bool \<Rightarrow> world \<Rightarrow> world" where
  "reset cfg c r reply_ok w =
     (if \<not> ctx_administrator c then w
      else if ctx_channel_id c = DISCORD_CHANNEL_ID cfg then
        (let w = w \<lparr> seen_prs := {}, seen_issues := {} \<rparr>;
             w = save_seen_items r w
         in if reply_ok then w \<lparr> channel := channel w @ [TextMessage reset_reply] \<rparr> else w)
      else w)"

section \<open>Notions used to state the properties\<close>

text \<open>
  The list \<open>new_prs\<close> (or \<open>new_issues\<close>) that the partition loop builds from the set
  before the loop and the list it runs over.
\<close>

definition new_items :: "int set \<Rightarrow> 'a item_scheme list \<Rightarrow> 'a item_scheme list" where
  "new_items seen xs = fst (partition_new xs [] seen)"

text \<open>The same list without the accumulator, for induction.\<close>

fun fresh :: "int set \<Rightarrow> 'a item_scheme list \<Rightarrow> 'a item_scheme list" where
  "fresh seen [] = []"
| "fresh seen (x # xs) =
     (if item_id x \<notin> seen then x # fresh (insert (item_id x) seen) xs else fresh seen xs)"

text \<open>
  The messages that reach the channel when the embeds \<open>es\<close> are sent in this order and
  \<open>out k\<close> is the outcome of the call number \<open>k\<close>: the accepted ones, in the order sent.
\<close>

fun delivered :: "(nat \<Rightarrow> send_result) \<Rightarrow> nat \<Rightarrow> embed list \<Rightarrow> message list" where
  "delivered out k [] = []"
| "delivered out k (e # es) =
     (if out k = Sent then [EmbedMessage e] else []) @ delivered out (Suc k) es"

text \<open>The list a cycle works on: the decoded list of a 200, nothing otherwise.\<close>

definition fetched :: "'a list http_result \<Rightarrow> 'a list" where
  "fetched r =
     (case r of Response status (Json v) \<Rightarrow> if status = 200 then v else [] | _ \<Rightarrow> [])"

text \<open>
  The embed that \<open>create_pr_embed\<close> (or \<open>create_issue_embed\<close>) returns for an item
  whose timestamp parses.
\<close>

definition pr_embed :: "config \<Rightarrow> pr \<Rightarrow> embed" where
  "pr_embed cfg p = projr (create_pr_embed (\<lambda>s. True) cfg p)"

definition issue_embed :: "config \<Rightarrow> issue \<Rightarrow> embed" where
  "issue_embed cfg i = projr (create_issue_embed (\<lambda>s. True) cfg i)"

text \<open>
  Whether the timestamp of an item parses; the items a delivery loop handles before
  the first one whose timestamp does not parse; whether a loop over \<open>xs\<close> returns.
\<close>

definition parses :: "(pystr \<Rightarrow> bool) \<Rightarrow> 'a item_scheme \<Rightarrow> bool" where
  "parses fromisoformat x = fromisoformat (replace_Z (created_at x))"

definition parsed_prefix :: "(pystr \<Rightarrow> bool) \<Rightarrow> 'a item_scheme list \<Rightarrow> 'a item_scheme list" where
  "parsed_prefix fromisoformat xs = takeWhile (parses fromisoformat) xs"

definition all_parse :: "(pystr \<Rightarrow> bool) \<Rightarrow> 'a item_scheme list \<Rightarrow> bool" where
  "all_parse fromisoformat xs = list_all (parses fromisoformat) xs"

definition not_marked :: "issue list \<Rightarrow> issue list" where
  "not_marked issues_data = filter (\<lambda>issue. \<not> pull_request issue) issues_data"

text \<open>
  The description as section 4.3 of the specification words it: the first 500
  characters, an ellipsis marker if truncation occurred, a fixed placeholder if the
  body is empty or absent.
\<close>

definition spec_description :: "pystr option \<Rightarrow> pystr" where
  "spec_description b =
     (case b of
        None \<Rightarrow> py ''No description provided''
      | Some t \<Rightarrow>
          if t = [] then py ''No description provided''
          else if length t > 500 then take 500 t @ py ''...''
          else t)"

text \<open>
  An embed of the polling bot "minus timestamp/thumbnail/footer decorations"
  (section 4.5), in the form of a webhook dictionary.
\<close>

definition undecorated :: "embed \<Rightarrow> webhook_embed" where
  "undecorated e =
     \<lparr> wh_title = embed_title e, wh_url = embed_url e, wh_description = embed_description e,
       wh_color = embed_color e, wh_fields = embed_fields e \<rparr>"

text \<open>What the polling Notifier adds to the description and to the fields.\<close>

definition ellipsis_marker :: "pystr option \<Rightarrow> pystr" where
  "ellipsis_marker b = (if truthy b \<and> length (the b) > 500 then py ''...'' else [])"

definition labels_fields :: "label list \<Rightarrow> embed_field list" where
  "labels_fields ls =
     (if ls \<noteq> [] \<and> join (py '', '') (map label_name ls) \<noteq> []
      then [\<lparr> name = py ''Labels'', val = join (py '', '') (map label_name ls),
              inline = False \<rparr>]
      else [])"

definition with_poll_extras :: "'a item_scheme \<Rightarrow> webhook_embed \<Rightarrow> webhook_embed" where
  "with_poll_extras x wh =
     wh \<lparr> wh_description := wh_description wh @ ellipsis_marker (body x),
          wh_fields := wh_fields wh @ labels_fields (labels x) \<rparr>"

text \<open>
  \<open>s <= t\<close> on Python strings. Two \<open>created_at\<close> timestamps of the API have the same
  format and zone, so this is the order of the creation times.
\<close>

fun str_le :: "pystr \<Rightarrow> pystr \<Rightarrow> bool" where
  "str_le [] t = True"
| "str_le (x # s) [] = False"
| "str_le (x # s) (y # t) = (x < y \<or> (x = y \<and> str_le s t))"

subsection \<open>Concrete inputs\<close>

text \<open>
  A parser for the examples: it accepts the strings of the shape
  \<open>YYYY-MM-DDTHH:MM:SS+HH:MM\<close>, which every \<open>datetime.fromisoformat\<close> accepts when the
  fields are in range, as they are in the examples; it rejects the empty string, as
  every \<open>datetime.fromisoformat\<close> does.
\<close>

definition is_digit :: "nat \<Rightarrow> bool" where
  "is_digit c = (48 \<le> c \<and> c \<le> 57)"

definition ex_fromisoformat :: "pystr \<Rightarrow> bool" where
  "ex_fromisoformat s =
     (length s = 25
      \<and> list_all is_digit
          (map (nth s) [0, 1, 2, 3, 5, 6, 8, 9, 11, 12, 14, 15, 17, 18, 20, 21, 23, 24])
      \<and> map (nth s) [4, 7, 10, 13, 16, 19, 22] = [45, 45, 84, 58, 58, 43, 58])"

definition ex_cfg :: config where
  "ex_cfg = \<lparr> GITHUB_REPO = py ''o/r'', DISCORD_CHANNEL_ID = 5 \<rparr>"

definition ex_user :: user where
  "ex_user = \<lparr> login = py ''ann'', avatar_url = py ''https://a/1'' \<rparr>"

definition ex_pr :: "int \<Rightarrow> pystr option \<Rightarrow> pystr \<Rightarrow> pr" where
  "ex_pr i b t =
     \<lparr> item_id = i, number = i, title = py ''Fix'', body = b,
       html_url = py ''https://github.com/o/r/pull'', user = ex_user,
       created_at = t, labels = [],
       head = \<lparr> ref = py ''fix'' \<rparr>, base = \<lparr> ref = py ''main'' \<rparr> \<rparr>"

definition ex_issue :: "int \<Rightarrow> pystr option \<Rightarrow> bool \<Rightarrow> issue" where
  "ex_issue i b m =
     \<lparr> item_id = i, number = i, title = py ''Bug'', body = b,
       html_url = py ''https://github.com/o/r/issues'', user = ex_user,
       created_at = py ''2024-01-01T00:00:00Z'', labels = [],
       pull_request = m \<rparr>"

definition ex_pr_event :: "pystr option \<Rightarrow> pr_event" where
  "ex_pr_event b =
     \<lparr> pr_action = py ''opened'', pr_pull_request = ex_pr 1 b (py ''2024-01-01T00:00:00Z''),
       pr_repository = \<lparr> full_name = py ''o/r'' \<rparr> \<rparr>"

definition ex_issue_event :: "pystr option \<Rightarrow> issue_event" where
  "ex_issue_event b =
     \<lparr> issue_action = py ''opened'', issue_issue = ex_issue 2 b False,
       issue_repository = \<lparr> full_name = py ''o/r'' \<rparr> \<rparr>"

definition ex_world :: "int set \<Rightarrow> int set \<Rightarrow> seen_file \<Rightarrow> world" where
  "ex_world ps is f =
     \<lparr> seen_prs = ps, seen_issues = is, SEEN_FILE = f, channel = [], log = [] \<rparr>"

definition ex_env ::
  "pr list http_result \<Rightarrow> issue list http_result \<Rightarrow> send_result \<Rightarrow> write_result \<Rightarrow> cycle_env"
where
  "ex_env p i s r =
     \<lparr> pr_response = p, issue_response = i, pr_sends = (\<lambda>k. s), issue_sends = (\<lambda>k. s),
       save_result = r \<rparr>"

definition ex_issue_at :: "int \<Rightarrow> pystr \<Rightarrow> issue" where
  "ex_issue_at i t = (ex_issue i None False) \<lparr> created_at := t \<rparr>"

definition T1 :: pystr where
  "T1 = py ''2024-01-01T10:00:00Z''"

definition T2 :: pystr where
  "T2 = py ''2024-01-02T09:30:00Z''"

definition T3 :: pystr where
  "T3 = py ''2024-02-01T08:00:00Z''"

definition ex_env3 :: cycle_env where
  "ex_env3 = ex_env (Response 200 (Json [ex_pr 3 None T3, ex_pr 2 None T2, ex_pr 1 None T1]))
     (Response 200 (Json [ex_issue_at 6 T3, ex_issue_at 5 T2, ex_issue_at 4 T1])) Sent WriteOk"

section \<open>Lemmas on the parts of the cycle\<close>

lemma partition_new_fresh:
  "partition_new xs new seen = (new @ fresh seen xs, seen \<union> item_id ` set xs)"
  by (induction xs arbitrary: new seen) auto

lemma new_items_fresh: "new_items seen xs = fresh seen xs"
  by (simp add: new_items_def partition_new_fresh)

lemma fresh_subset: "set (fresh seen xs) \<subseteq> set xs"
  by (induction xs arbitrary: seen) auto

lemma fresh_ids: "item_id ` set (fresh seen xs) = item_id ` set xs - seen"
  by (induction xs arbitrary: seen) auto

lemma fresh_distinct:
  "distinct (map item_id xs) \<Longrightarrow> fresh seen xs = filter (\<lambda>x. item_id x \<notin> seen) xs"
proof (induction xs arbitrary: seen)
  case Nil
  then show ?case by simp
next
  case (Cons x xs)
  have "filter (\<lambda>y. item_id y \<notin> insert (item_id x) seen) xs
      = filter (\<lambda>y. item_id y \<notin> seen) xs"
    using Cons.prems by (intro filter_cong) (auto simp: image_iff)
  with Cons show ?case by simp
qed

lemma fresh_sorted_wrt: "sorted_wrt P xs \<Longrightarrow> sorted_wrt P (fresh seen xs)"
proof (induction xs arbitrary: seen)
  case Nil
  then show ?case by simp
next
  case (Cons x xs)
  then show ?case using fresh_subset [of "insert (item_id x) seen" xs] by auto
qed

lemma send_fields [simp]:
  "seen_prs (send_discord_message r e w) = seen_prs w"
  "seen_issues (send_discord_message r e w) = seen_issues w"
  "SEEN_FILE (send_discord_message r e w) = SEEN_FILE w"
  "channel (send_discord_message r e w) = channel w @ (if r = Sent then [EmbedMessage e] else [])"
  by (cases r; simp add: send_discord_message_def)+

lemma fetch_fields [simp]:
  "seen_prs (snd (fetch_github_data r w)) = seen_prs w"
  "seen_issues (snd (fetch_github_data r w)) = seen_issues w"
  "SEEN_FILE (snd (fetch_github_data r w)) = SEEN_FILE w"
  "channel (snd (fetch_github_data r w)) = channel w"
  by (simp_all add: fetch_github_data_def split: http_result.splits json_result.splits)

lemma fetch_result:
  "fst (fetch_github_data r w) =
     (case r of Response status (Json v) \<Rightarrow> if status = 200 then Some v else None
      | _ \<Rightarrow> None)"
  by (simp add: fetch_github_data_def split: http_result.splits json_result.splits)

lemma fetched_unavailable: "fst (fetch_github_data r w) = None \<Longrightarrow> fetched r = []"
  by (simp add: fetch_result fetched_def split: http_result.splits json_result.splits if_splits)

lemma fetched_200 [simp]: "fetched (Response 200 (Json v)) = v"
  by (simp add: fetched_def)

lemma mark_new_prs_eq:
  "mark_new_prs prs w
     = (new_items (seen_prs w) prs, w \<lparr> seen_prs := seen_prs w \<union> item_id ` set prs \<rparr>)"
  by (simp add: mark_new_prs_def new_items_def partition_new_fresh)

lemma mark_new_issues_eq:
  "mark_new_issues xs w =
     (new_items (seen_issues w) (not_marked xs),
      w \<lparr> seen_issues := seen_issues w \<union> item_id ` set (not_marked xs) \<rparr>)"
  by (simp add: mark_new_issues_def new_items_def not_marked_def partition_new_fresh Let_def)

lemma new_items_Nil [simp]: "new_items seen [] = []"
  by (simp add: new_items_def)

lemma not_marked_Nil [simp]: "not_marked [] = []"
  by (simp add: not_marked_def)

lemma save_fields [simp]:
  "seen_prs (save_seen_items r w) = seen_prs w"
  "seen_issues (save_seen_items r w) = seen_issues w"
  "channel (save_seen_items r w) = channel w"
  by (cases r; simp add: save_seen_items_def)+

lemma save_file:
  "SEEN_FILE (save_seen_items r w) =
     (case r of WriteOk \<Rightarrow> Object (Ints (seen_prs w)) (Ints (seen_issues w))
      | OpenFails \<Rightarrow> SEEN_FILE w | DumpFails \<Rightarrow> Unreadable)"
  by (cases r; simp add: save_seen_items_def)

lemma with_poll_extras_same:
  "\<not> (truthy (body x) \<and> length (the (body x)) > 500) \<Longrightarrow> labels x = []
   \<Longrightarrow> with_poll_extras x wh = wh"
  by (auto simp: with_poll_extras_def ellipsis_marker_def labels_fields_def)

lemma fresh_subseq: "subseq (fresh seen xs) xs"
  by (induction xs arbitrary: seen) auto

lemma new_items_subseq: "subseq (new_items seen xs) xs"
  by (simp add: new_items_fresh fresh_subseq)

lemma new_items_sorted_rev:
  "sorted_wrt (\<lambda>a b. older (created_at b) (created_at a)) xs \<Longrightarrow>
   sorted_wrt (\<lambda>a b. older (created_at a) (created_at b)) (rev (new_items seen xs))"
  by (simp add: sorted_wrt_rev new_items_fresh fresh_sorted_wrt)

lemma not_marked_set: "set (not_marked xs) = {x \<in> set xs. \<not> pull_request x}"
  by (auto simp: not_marked_def)

lemma reset_seen:
  "seen_prs (reset cfg c r ok w)
     = (if ctx_administrator c \<and> ctx_channel_id c = DISCORD_CHANNEL_ID cfg then {} else seen_prs w)"
  "seen_issues (reset cfg c r ok w)
     = (if ctx_administrator c \<and> ctx_channel_id c = DISCORD_CHANNEL_ID cfg then {}
        else seen_issues w)"
  by (simp_all add: reset_def Let_def)

lemma reset_file:
  "ctx_administrator c \<Longrightarrow> ctx_channel_id c = DISCORD_CHANNEL_ID cfg \<Longrightarrow>
   SEEN_FILE (reset cfg c r ok w)
     = (case r of WriteOk \<Rightarrow> Object (Ints {}) (Ints {}) | OpenFails \<Rightarrow> SEEN_FILE w
        | DumpFails \<Rightarrow> Unreadable)"
  by (simp add: reset_def Let_def save_seen_items_def split: write_result.splits)

lemma new_items_empty_ids: "item_id ` set (new_items {} xs) = item_id ` set xs"
  by (simp add: new_items_fresh fresh_ids)

lemma new_items_empty_distinct: "distinct (map item_id xs) \<Longrightarrow> new_items {} xs = xs"
  by (simp add: new_items_fresh fresh_distinct)

lemma load_try_fails:
  "load_try w = Inl e \<longleftrightarrow>
     SEEN_FILE w = Unreadable
     \<or> (\<exists>p i. SEEN_FILE w = Object p i \<and> (p = NotIterable \<or> i = NotIterable))"
  by (auto simp: load_try_def get_set_def split: seen_file.splits file_field.splits)

lemma load_failed_fields:
  assumes "load_try w = Inl e"
  shows "seen_prs (load_seen_items w) = {}" "seen_issues (load_seen_items w) = {}"
    "channel (load_seen_items w) = channel w" "SEEN_FILE (load_seen_items w) = SEEN_FILE w"
    "log (load_seen_items w) = log w @ [ErrorLoading]"
  using assms by (simp_all add: load_seen_items_def)

lemma T_order:
  "str_le T1 T2" "str_le T2 T3" "str_le T1 T3"
  by (simp_all add: T1_def T2_def T3_def py_def)

lemma not_seen_is_new:
  "x \<in> set xs \<Longrightarrow> item_id x \<notin> seen \<Longrightarrow> item_id x \<in> item_id ` set (new_items seen xs)"
  by (simp add: new_items_fresh fresh_ids)

lemma create_pr_embed_eq:
  "create_pr_embed f cfg p = (if parses f p then Inr (pr_embed cfg p) else Inl ValueError)"
  unfolding create_pr_embed_def pr_embed_def parses_def Let_def by simp

lemma create_issue_embed_eq:
  "create_issue_embed f cfg i = (if parses f i then Inr (issue_embed cfg i) else Inl ValueError)"
  unfolding create_issue_embed_def issue_embed_def parses_def Let_def by simp

lemma parsed_prefix_simps [simp]:
  "parsed_prefix f [] = []"
  "parsed_prefix f (x # xs) = (if parses f x then x # parsed_prefix f xs else [])"
  by (simp_all add: parsed_prefix_def)

lemma all_parse_simps [simp]:
  "all_parse f [] = True"
  "all_parse f (x # xs) = (parses f x \<and> all_parse f xs)"
  by (simp_all add: all_parse_def)

lemma all_parse_prefix: "all_parse f xs \<Longrightarrow> parsed_prefix f xs = xs"
  by (induction xs) auto

lemma all_parse_rev [simp]: "all_parse f (rev xs) = all_parse f xs"
  by (auto simp: all_parse_def list_all_iff)

lemma all_parse_subset: "all_parse f xs \<Longrightarrow> set ys \<subseteq> set xs \<Longrightarrow> all_parse f ys"
  by (auto simp: all_parse_def list_all_iff)

lemma notify_prs_fields [simp]:
  "seen_prs (snd (notify_prs f cfg out k ps w)) = seen_prs w"
  "seen_issues (snd (notify_prs f cfg out k ps w)) = seen_issues w"
  "SEEN_FILE (snd (notify_prs f cfg out k ps w)) = SEEN_FILE w"
  "channel (snd (notify_prs f cfg out k ps w))
     = channel w @ delivered out k (map (pr_embed cfg) (parsed_prefix f ps))"
  "fst (notify_prs f cfg out k ps w) = (if all_parse f ps then None else Some ValueError)"
  by (induction ps arbitrary: k w; simp add: Let_def create_pr_embed_eq)+

lemma notify_issues_fields [simp]:
  "seen_prs (snd (notify_issues f cfg out k ps w)) = seen_prs w"
  "seen_issues (snd (notify_issues f cfg out k ps w)) = seen_issues w"
  "SEEN_FILE (snd (notify_issues f cfg out k ps w)) = SEEN_FILE w"
  "channel (snd (notify_issues f cfg out k ps w))
     = channel w @ delivered out k (map (issue_embed cfg) (parsed_prefix f ps))"
  "fst (notify_issues f cfg out k ps w) = (if all_parse f ps then None else Some ValueError)"
  by (induction ps arbitrary: k w; simp add: Let_def create_issue_embed_eq)+

lemma check_prs_fields:
  "seen_prs (snd (check_prs f cfg env w))
     = seen_prs w \<union> item_id ` set (fetched (pr_response env))"
  "seen_issues (snd (check_prs f cfg env w)) = seen_issues w"
  "SEEN_FILE (snd (check_prs f cfg env w)) = SEEN_FILE w"
  "channel (snd (check_prs f cfg env w)) = channel w @
     delivered (pr_sends env) 0
       (map (pr_embed cfg)
         (parsed_prefix f (rev (new_items (seen_prs w) (fetched (pr_response env))))))"
  "fst (check_prs f cfg env w)
     = (if all_parse f (new_items (seen_prs w) (fetched (pr_response env))) then None
        else Some ValueError)"
  by (auto simp: check_prs_def fetched_def mark_new_prs_eq fetch_github_data_def Let_def
      split: http_result.splits json_result.splits prod.splits)

lemma check_issues_fields:
  "seen_prs (snd (check_issues f cfg env w)) = seen_prs w"
  "seen_issues (snd (check_issues f cfg env w))
     = seen_issues w \<union> item_id ` set (not_marked (fetched (issue_response env)))"
  "SEEN_FILE (snd (check_issues f cfg env w)) = SEEN_FILE w"
  "channel (snd (check_issues f cfg env w)) = channel w @
     delivered (issue_sends env) 0
       (map (issue_embed cfg)
         (parsed_prefix f
           (rev (new_items (seen_issues w) (not_marked (fetched (issue_response env)))))))"
  "fst (check_issues f cfg env w)
     = (if all_parse f (new_items (seen_issues w) (not_marked (fetched (issue_response env))))
        then None else Some ValueError)"
  by (auto simp: check_issues_def fetched_def mark_new_issues_eq fetch_github_data_def Let_def
      split: http_result.splits json_result.splits prod.splits)

lemma check_repository_cases:
  "check_repository f cfg env w =
     (let r1 = check_prs f cfg env (w \<lparr> log := log w @ [CheckingRepository] \<rparr>) in
      if fst r1 = None then
        (let r2 = check_issues f cfg env (snd r1) in
         if fst r2 = None then (None, save_seen_items (save_result env) (snd r2)) else r2)
      else r1)"
  unfolding check_repository_def Let_def by (auto split: prod.splits option.splits)

lemma check_repository_fields:
  "seen_prs (snd (check_repository f cfg env w))
     = seen_prs w \<union> item_id ` set (fetched (pr_response env))"
  "seen_issues (snd (check_repository f cfg env w))
     = (if fst (check_prs f cfg env w) = None
        then seen_issues w \<union> item_id ` set (not_marked (fetched (issue_response env)))
        else seen_issues w)"
  "channel (snd (check_repository f cfg env w)) = channel w @
     delivered (pr_sends env) 0
       (map (pr_embed cfg)
         (parsed_prefix f (rev (new_items (seen_prs w) (fetched (pr_response env)))))) @
     (if fst (check_prs f cfg env w) = None
      then delivered (issue_sends env) 0
             (map (issue_embed cfg)
               (parsed_prefix f
                 (rev (new_items (seen_issues w) (not_marked (fetched (issue_response env)))))))
      else [])"
  "SEEN_FILE (snd (check_repository f cfg env w))
     = (if fst (check_prs f cfg env w) = None \<and> fst (check_issues f cfg env w) = None
        then (case save_result env of
                WriteOk \<Rightarrow> Object (Ints (seen_prs (snd (check_repository f cfg env w))))
                                 (Ints (seen_issues (snd (check_repository f cfg env w))))
              | OpenFails \<Rightarrow> SEEN_FILE w
              | DumpFails \<Rightarrow> Unreadable)
        else SEEN_FILE w)"
  "fst (check_repository f cfg env w)
     = (if fst (check_prs f cfg env w) = None \<and> fst (check_issues f cfg env w) = None
        then None else Some ValueError)"
  by (simp_all add: check_repository_cases Let_def check_prs_fields check_issues_fields
      save_file split: write_result.splits)

lemma check_prs_unfold:
  "pr_response env = Response 200 (Json prs) \<Longrightarrow> prs \<noteq> [] \<Longrightarrow>
   check_prs f cfg env w
     = notify_prs f cfg (pr_sends env) 0 (rev (fst (mark_new_prs prs w)))
         (snd (mark_new_prs prs w))"
  by (simp add: check_prs_def fetch_github_data_def split: prod.splits)

lemma check_issues_unfold:
  "issue_response env = Response 200 (Json xs) \<Longrightarrow> xs \<noteq> [] \<Longrightarrow>
   check_issues f cfg env w
     = notify_issues f cfg (issue_sends env) 0 (rev (fst (mark_new_issues xs w)))
         (snd (mark_new_issues xs w))"
  by (simp add: check_issues_def fetch_github_data_def split: prod.splits)

lemma run_cycles_seen:
  "seen_prs w \<subseteq> seen_prs (snd (run_cycles f cfg envs w))
   \<and> seen_issues w \<subseteq> seen_issues (snd (run_cycles f cfg envs w))"
proof (induction envs arbitrary: w)
  case Nil
  then show ?case by simp
next
  case (Cons env envs)
  have a: "seen_prs w \<subseteq> seen_prs (snd (check_repository f cfg env w))"
    and b: "seen_issues w \<subseteq> seen_issues (snd (check_repository f cfg env w))"
    by (auto simp: check_repository_fields)
  show ?case
  proof (cases "check_repository f cfg env w")
    case (Pair r w')
    with a b Cons [of w'] show ?thesis
      by (cases r) auto
  qed
qed

lemma run_cycles_seen_prs:
  "seen_prs (snd (run_cycles f cfg envs w))
     \<subseteq> seen_prs w \<union> (\<Union>env\<in>set envs. item_id ` set (fetched (pr_response env)))"
proof (induction envs arbitrary: w)
  case Nil
  then show ?case by simp
next
  case (Cons env envs)
  have a: "seen_prs (snd (check_repository f cfg env w))
      = seen_prs w \<union> item_id ` set (fetched (pr_response env))"
    by (simp add: check_repository_fields)
  show ?case
  proof (cases "check_repository f cfg env w")
    case (Pair r w')
    with a Cons [of w'] show ?thesis
      by (cases r) auto
  qed
qed

lemma run_cycles_seen_issues:
  "seen_issues (snd (run_cycles f cfg envs w))
     \<subseteq> seen_issues w
       \<union> (\<Union>env\<in>set envs. item_id ` set (not_marked (fetched (issue_response env))))"
proof (induction envs arbitrary: w)
  case Nil
  then show ?case by simp
next
  case (Cons env envs)
  have a: "seen_issues (snd (check_repository f cfg env w))
      \<subseteq> seen_issues w \<union> item_id ` set (not_marked (fetched (issue_response env)))"
    by (simp add: check_repository_fields)
  show ?case
  proof (cases "check_repository f cfg env w")
    case (Pair r w')
    with a Cons [of w'] show ?thesis
      by (cases r) auto
  qed
qed

lemma pr_embed_undecorated:
  "undecorated (pr_embed cfg p) =
     \<lparr> wh_title = pr_title_prefix @ title p, wh_url = html_url p,
       wh_description = (if truthy (body p) then take 500 (the (body p))
                         else py ''No description provided'') @ ellipsis_marker (body p),
       wh_color = 3066993,
       wh_fields = [\<lparr> name = py ''Repository'', val = GITHUB_REPO cfg, inline = True \<rparr>,
                    \<lparr> name = py ''Author'', val = login (user p), inline = True \<rparr>,
                    \<lparr> name = py ''Branch'', val = ref (head p) @ arrow @ ref (base p),
                       inline = False \<rparr>] @ labels_fields (labels p) \<rparr>"
  unfolding pr_embed_def create_pr_embed_def undecorated_def ellipsis_marker_def
    labels_fields_def Color_green_def Let_def
  by simp

lemma issue_embed_undecorated:
  "undecorated (issue_embed cfg i) =
     \<lparr> wh_title = issue_title_prefix @ title i, wh_url = html_url i,
       wh_description = (if truthy (body i) then take 500 (the (body i))
                         else py ''No description provided'') @ ellipsis_marker (body i),
       wh_color = 15158332,
       wh_fields = [\<lparr> name = py ''Repository'', val = GITHUB_REPO cfg, inline = True \<rparr>,
                    \<lparr> name = py ''Author'', val = login (user i), inline = True \<rparr>]
                   @ labels_fields (labels i) \<rparr>"
  unfolding issue_embed_def create_issue_embed_def undecorated_def ellipsis_marker_def
    labels_fields_def Color_red_def Let_def
  by simp

lemma pr_embed_description:
  "embed_description (pr_embed cfg p) = spec_description (body p)"
  unfolding pr_embed_def create_pr_embed_def Let_def
  by (simp add: spec_description_def truthy_def split: option.splits)

lemma issue_embed_description:
  "embed_description (issue_embed cfg i) = spec_description (body i)"
  unfolding issue_embed_def create_issue_embed_def Let_def
  by (simp add: spec_description_def truthy_def split: option.splits)

lemma ex_parses:
  "ex_fromisoformat (replace_Z T1)" "ex_fromisoformat (replace_Z T2)"
  "ex_fromisoformat (replace_Z T3)"
  "ex_fromisoformat (replace_Z (py ''2024-01-01T00:00:00Z''))"
  "\<not> ex_fromisoformat (replace_Z [])"
  by (simp_all add: ex_fromisoformat_def replace_Z_def T1_def T2_def T3_def py_def is_digit_def)

lemma ex_parses_items [simp]:
  "parses ex_fromisoformat (ex_pr i b T1)" "parses ex_fromisoformat (ex_pr i b T2)"
  "parses ex_fromisoformat (ex_pr i b T3)"
  "\<not> parses ex_fromisoformat (ex_pr i b [])"
  "parses ex_fromisoformat (ex_issue i b m)"
  "parses ex_fromisoformat (ex_issue_at i T1)" "parses ex_fromisoformat (ex_issue_at i T2)"
  "parses ex_fromisoformat (ex_issue_at i T3)"
  "\<not> parses ex_fromisoformat (ex_issue_at i [])"
  by (simp_all add: parses_def ex_pr_def ex_issue_def ex_issue_at_def ex_parses)

lemma ex_ids [simp]:
  "item_id (ex_pr i b t) = i" "item_id (ex_issue i b m) = i" "item_id (ex_issue_at i t) = i"
  "pull_request (ex_issue i b m) = m" "pull_request (ex_issue_at i t) = False"
  "created_at (ex_pr i b t) = t" "created_at (ex_issue_at i t) = t"
  "body (ex_pr i b t) = b" "body (ex_issue i b m) = b"
  by (simp_all add: ex_pr_def ex_issue_def ex_issue_at_def)

lemma ex_env_fields [simp]:
  "pr_response (ex_env p i s r) = p" "issue_response (ex_env p i s r) = i"
  "pr_sends (ex_env p i s r) = (\<lambda>k. s)" "issue_sends (ex_env p i s r) = (\<lambda>k. s)"
  "save_result (ex_env p i s r) = r"
  by (simp_all add: ex_env_def)

lemma ex_world_fields [simp]:
  "seen_prs (ex_world ps is f) = ps" "seen_issues (ex_world ps is f) = is"
  "SEEN_FILE (ex_world ps is f) = f" "channel (ex_world ps is f) = []"
  "log (ex_world ps is f) = []"
  by (simp_all add: ex_world_def)

lemma sorted_wrt_takeWhile: "sorted_wrt P xs \<Longrightarrow> sorted_wrt P (takeWhile Q xs)"
  by (induction xs) (auto dest: set_takeWhileD)

section \<open>The messages\<close>

text \<open>
  C3. The description of every embed the polling Notifier builds, for a pull request
  and for an issue, is the description of section 4.3: the first 500 characters of
  the body followed by the marker \<open>...\<close> when the body is longer than 500 characters,
  the body itself when it has 1 to 500 characters, and the text
  \<open>No description provided\<close> when the body is absent or empty. The Notifier builds
  the embed exactly when the timestamp of the item parses, and raises \<open>ValueError\<close>
  otherwise.
\<close>

theorem description_is_truncated_body:
  "embed_description (pr_embed cfg p) = spec_description (body p)
   \<and> embed_description (issue_embed cfg i) = spec_description (body i)
   \<and> map_sum id embed_description (create_pr_embed fromisoformat cfg p)
       = (if fromisoformat (replace_Z (created_at p)) then Inr (spec_description (body p))
          else Inl ValueError)
   \<and> map_sum id embed_description (create_issue_embed fromisoformat cfg i)
       = (if fromisoformat (replace_Z (created_at i)) then Inr (spec_description (body i))
          else Inl ValueError)"
  by (simp add: pr_embed_description issue_embed_description create_pr_embed_eq
      create_issue_embed_eq parses_def)

text \<open>
  The cases of the specification: a body of 600 characters, one of 400, an absent and
  an empty one.
\<close>

theorem description_is_truncated_body_witness:
  "map_sum id embed_description
      (create_pr_embed ex_fromisoformat ex_cfg (ex_pr 1 (Some (replicate 600 97)) T1))
     = Inr (replicate 500 97 @ py ''...'')
   \<and> map_sum id embed_description
      (create_issue_embed ex_fromisoformat ex_cfg (ex_issue 2 (Some (replicate 400 97)) False))
     = Inr (replicate 400 97)
   \<and> map_sum id embed_description
      (create_pr_embed ex_fromisoformat ex_cfg (ex_pr 1 None T1))
     = Inr (py ''No description provided'')
   \<and> map_sum id embed_description
      (create_issue_embed ex_fromisoformat ex_cfg (ex_issue 2 (Some []) False))
     = Inr (py ''No description provided'')"
proof -
  have p: "ex_fromisoformat (replace_Z T1)"
    "ex_fromisoformat (replace_Z (created_at (ex_issue 2 b False)))" for b
    using ex_parses_items(5) [of 2 b False] by (simp_all add: ex_parses parses_def)
  from description_is_truncated_body [of ex_cfg "ex_pr 1 (Some (replicate 600 97)) T1"
          "ex_issue 2 (Some (replicate 400 97)) False" ex_fromisoformat]
        description_is_truncated_body [of ex_cfg "ex_pr 1 None T1" "ex_issue 2 (Some []) False"
          ex_fromisoformat]
  show ?thesis
    by (simp add: spec_description_def p)
qed

text \<open>
  C2, as stated, fails: for a pull request whose body has 501 characters (and whose
  timestamp parses, so that the polling Notifier builds its embed) the webhook
  formatter of \<open>main.py\<close> delivers the first 500 characters and no marker, while the
  polling Notifier appends \<open>...\<close>, so the payload is not the undecorated embed.
\<close>

theorem webhook_shape_counterexample:
  "create_pr_embed ex_fromisoformat ex_cfg (pr_pull_request (ex_pr_event (Some (replicate 501 97))))
     = Inr (pr_embed ex_cfg (pr_pull_request (ex_pr_event (Some (replicate 501 97)))))
   \<and> format_pr (ex_pr_event (Some (replicate 501 97)))
     \<noteq> \<lparr> embeds = [undecorated (pr_embed ex_cfg
                       (pr_pull_request (ex_pr_event (Some (replicate 501 97)))))] \<rparr>"
proof
  have "pr_pull_request (ex_pr_event b) = ex_pr 1 b (py ''2024-01-01T00:00:00Z'')" for b
    by (simp add: ex_pr_event_def)
  then show "create_pr_embed ex_fromisoformat ex_cfg
      (pr_pull_request (ex_pr_event (Some (replicate 501 97))))
     = Inr (pr_embed ex_cfg (pr_pull_request (ex_pr_event (Some (replicate 501 97)))))"
    by (simp add: create_pr_embed_eq parses_def ex_parses)
  show "format_pr (ex_pr_event (Some (replicate 501 97)))
     \<noteq> \<lparr> embeds = [undecorated (pr_embed ex_cfg
                       (pr_pull_request (ex_pr_event (Some (replicate 501 97)))))] \<rparr>"
    by (simp add: format_pr_def pr_embed_undecorated ellipsis_marker_def ex_pr_event_def
        ex_pr_def ex_cfg_def truthy_def Let_def py_def)
qed

text \<open>
  C2, amended. When the repository of the event is the configured repository, the
  embed of the polling Notifier without timestamp, thumbnail and footer is the
  dictionary of the webhook formatter (same title, url, colour, and the same
  Repository, Author and Branch fields) with two additions that \<open>main.py\<close> does not
  make: the marker \<open>...\<close> after the description when the body is longer than 500
  characters, and a final Labels field when the item has labels whose joined names
  are not empty. For pull requests and for issues. The polling Notifier builds this
  embed when the timestamp of the item parses.
\<close>

theorem webhook_shape_up_to_extras:
  assumes "GITHUB_REPO cfg = full_name (pr_repository pev)"
      and "GITHUB_REPO cfg = full_name (issue_repository iev)"
  shows "[undecorated (pr_embed cfg (pr_pull_request pev))]
           = map (with_poll_extras (pr_pull_request pev)) (embeds (format_pr pev))
         \<and> [undecorated (issue_embed cfg (issue_issue iev))]
           = map (with_poll_extras (issue_issue iev)) (embeds (format_issue iev))
         \<and> create_pr_embed fromisoformat cfg (pr_pull_request pev)
           = (if fromisoformat (replace_Z (created_at (pr_pull_request pev)))
              then Inr (pr_embed cfg (pr_pull_request pev)) else Inl ValueError)
         \<and> create_issue_embed fromisoformat cfg (issue_issue iev)
           = (if fromisoformat (replace_Z (created_at (issue_issue iev)))
              then Inr (issue_embed cfg (issue_issue iev)) else Inl ValueError)"
  using assms
  by (simp add: pr_embed_undecorated issue_embed_undecorated format_pr_def format_issue_def
      with_poll_extras_def Let_def create_pr_embed_eq create_issue_embed_eq parses_def)

text \<open>
  With a short body and no label the two messages are the same, for a pull request
  and for an issue.
\<close>

theorem webhook_shape_up_to_extras_witness:
  "GITHUB_REPO ex_cfg = full_name (pr_repository (ex_pr_event (Some (py ''short''))))
   \<and> GITHUB_REPO ex_cfg = full_name (issue_repository (ex_issue_event None))
   \<and> create_pr_embed ex_fromisoformat ex_cfg (pr_pull_request (ex_pr_event (Some (py ''short''))))
       = Inr (pr_embed ex_cfg (pr_pull_request (ex_pr_event (Some (py ''short'')))))
   \<and> create_issue_embed ex_fromisoformat ex_cfg (issue_issue (ex_issue_event None))
       = Inr (issue_embed ex_cfg (issue_issue (ex_issue_event None)))
   \<and> format_pr (ex_pr_event (Some (py ''short'')))
       = \<lparr> embeds = [undecorated (pr_embed ex_cfg
                        (pr_pull_request (ex_pr_event (Some (py ''short'')))))] \<rparr>
   \<and> format_issue (ex_issue_event None)
       = \<lparr> embeds = [undecorated (issue_embed ex_cfg (issue_issue (ex_issue_event None)))] \<rparr>"
proof -
  have r1: "GITHUB_REPO ex_cfg = full_name (pr_repository (ex_pr_event (Some (py ''short''))))"
    by (simp add: ex_cfg_def ex_pr_event_def)
  have r2: "GITHUB_REPO ex_cfg = full_name (issue_repository (ex_issue_event None))"
    by (simp add: ex_cfg_def ex_issue_event_def)
  have s1: "with_poll_extras (pr_pull_request (ex_pr_event (Some (py ''short'')))) = (\<lambda>wh. wh)"
    by (rule ext, rule with_poll_extras_same)
       (simp_all add: ex_pr_event_def ex_pr_def truthy_def py_def)
  have s2: "with_poll_extras (issue_issue (ex_issue_event None)) = (\<lambda>wh. wh)"
    by (rule ext, rule with_poll_extras_same)
       (simp_all add: ex_issue_event_def ex_issue_def truthy_def)
  have e1: "\<exists>wh. embeds (format_pr (ex_pr_event (Some (py ''short'')))) = [wh]"
    by (simp add: format_pr_def Let_def)
  have e2: "\<exists>wh. embeds (format_issue (ex_issue_event None)) = [wh]"
    by (simp add: format_issue_def Let_def)
  have p1: "ex_fromisoformat
      (replace_Z (created_at (pr_pull_request (ex_pr_event (Some (py ''short''))))))"
    by (simp add: ex_pr_event_def ex_parses)
  have p2: "ex_fromisoformat (replace_Z (created_at (issue_issue (ex_issue_event None))))"
    using ex_parses_items(5) [of 2 None False] by (simp add: ex_issue_event_def parses_def)
  from webhook_shape_up_to_extras [OF r1 r2, of ex_fromisoformat] r1 r2 e1 e2 show ?thesis
    by (auto simp: s1 s2 p1 p2 payload.equality)
qed

section \<open>The fetch\<close>

text \<open>
  C7, as stated, fails: a response with status 200 whose body \<open>response.json()\<close>
  cannot decode makes the call raise inside the \<open>try\<close>, and the fetch returns \<open>None\<close>,
  not a parsed list, although the status is 200.
\<close>

theorem fetch_counterexample:
  "fst (fetch_github_data (Response 200 (JsonRaises :: pr list json_result))
         (ex_world {} {} Missing)) = None"
  by (simp add: fetch_github_data_def)

text \<open>
  C7, amended. The fetch returns the decoded document exactly when the status is 200
  and the body decodes; it returns \<open>None\<close>, as a value and with one line printed, for
  a 200 whose body does not decode, for a transport failure, for a 403 (the
  rate-limit line, which differs from the line of the other statuses) and for every
  other status (the line with the status code).
\<close>

theorem fetch_classification:
  "(fst (fetch_github_data r w) = Some v \<longleftrightarrow> r = Response 200 (Json v))
   \<and> fetch_github_data (Response 200 (Json v)) w = (Some v, w)
   \<and> fetch_github_data (Response 200 JsonRaises) w = (None, w \<lparr> log := log w @ [ErrorFetching] \<rparr>)
   \<and> fetch_github_data GetRaises w = (None, w \<lparr> log := log w @ [ErrorFetching] \<rparr>)
   \<and> fetch_github_data (Response 403 j) w = (None, w \<lparr> log := log w @ [RateLimitExceeded] \<rparr>)
   \<and> (status \<noteq> 200 \<longrightarrow> status \<noteq> 403 \<longrightarrow>
        fetch_github_data (Response status j) w
          = (None, w \<lparr> log := log w @ [GitHubApiError status] \<rparr>))"
  by (auto simp: fetch_github_data_def split: http_result.splits json_result.splits if_splits)

text \<open>A 404.\<close>

theorem fetch_classification_witness:
  "(404::nat) \<noteq> 200 \<and> (404::nat) \<noteq> 403
   \<and> fetch_github_data (Response 404 (Json [ex_pr 1 None T1])) (ex_world {} {} Missing)
       = (None, (ex_world {} {} Missing)
                  \<lparr> log := log (ex_world {} {} Missing) @ [GitHubApiError 404] \<rparr>)"
proof -
  have a: "(404::nat) \<noteq> 200" and b: "(404::nat) \<noteq> 403"
    by simp_all
  have "(404::nat) \<noteq> 200 \<longrightarrow> (404::nat) \<noteq> 403 \<longrightarrow>
        fetch_github_data (Response 404 (Json [ex_pr 1 None T1])) (ex_world {} {} Missing)
          = (None, (ex_world {} {} Missing)
                     \<lparr> log := log (ex_world {} {} Missing) @ [GitHubApiError 404] \<rparr>)"
    using fetch_classification [of GetRaises "ex_world {} {} Missing" "[]"
            "Json [ex_pr 1 None T1]" 404]
    by blast
  with a b show ?thesis by blast
qed

section \<open>The check cycle\<close>

text \<open>
  C1. In a cycle whose fetch returned the list \<open>prs\<close>, the ID of every fetched item
  \<open>x\<close> is in \<open>seen_prs\<close> after the partition pass, which sends nothing, and the
  delivery loop starts from the state the partition pass left; the ID is in the set
  when the cycle ends, whatever the outcomes of the sends and also when the cycle
  ends by an exception. So whatever list the next cycle fetches, no item with the ID
  of \<open>x\<close> is among its new items, and the messages of the next cycle are built from
  its new items only. The same for the issues that carry no pull-request marker, in
  a cycle that reaches the issues.
\<close>

theorem seen_before_delivery_at_most_once:
  "(pr_response e1 = Response 200 (Json prs) \<and> x \<in> set prs \<longrightarrow>
      item_id x \<in> seen_prs (snd (mark_new_prs prs w))
    \<and> channel (snd (mark_new_prs prs w)) = channel w
    \<and> check_prs f cfg e1 w
        = notify_prs f cfg (pr_sends e1) 0 (rev (fst (mark_new_prs prs w)))
            (snd (mark_new_prs prs w))
    \<and> item_id x \<in> seen_prs (snd (check_repository f cfg e1 w))
    \<and> item_id x \<notin> item_id `
          set (new_items (seen_prs (snd (check_repository f cfg e1 w))) prs2))
   \<and> (issue_response e1 = Response 200 (Json issues_data) \<and> y \<in> set issues_data
        \<and> \<not> pull_request y \<longrightarrow>
      item_id y \<in> seen_issues (snd (mark_new_issues issues_data w))
    \<and> channel (snd (mark_new_issues issues_data w)) = channel w
    \<and> check_issues f cfg e1 w
        = notify_issues f cfg (issue_sends e1) 0 (rev (fst (mark_new_issues issues_data w)))
            (snd (mark_new_issues issues_data w))
    \<and> item_id y \<in> seen_issues (snd (check_issues f cfg e1 w))
    \<and> (fst (check_prs f cfg e1 w) = None \<longrightarrow>
          item_id y \<in> seen_issues (snd (check_repository f cfg e1 w))
        \<and> item_id y \<notin> item_id `
              set (new_items (seen_issues (snd (check_repository f cfg e1 w)))
                     (not_marked issues2))))
   \<and> channel (snd (check_repository f cfg e2 (snd (check_repository f cfg e1 w))))
       = channel (snd (check_repository f cfg e1 w))
         @ delivered (pr_sends e2) 0
             (map (pr_embed cfg)
               (parsed_prefix f
                 (rev (new_items (seen_prs (snd (check_repository f cfg e1 w)))
                        (fetched (pr_response e2))))))
         @ (if fst (check_prs f cfg e2 (snd (check_repository f cfg e1 w))) = None
            then delivered (issue_sends e2) 0
                   (map (issue_embed cfg)
                     (parsed_prefix f
                       (rev (new_items (seen_issues (snd (check_repository f cfg e1 w)))
                              (not_marked (fetched (issue_response e2)))))))
            else [])"
proof (intro conjI impI)
  assume h: "pr_response e1 = Response 200 (Json prs) \<and> x \<in> set prs"
  then have ne: "prs \<noteq> []" by auto
  from h show "item_id x \<in> seen_prs (snd (mark_new_prs prs w))"
    by (simp add: mark_new_prs_eq)
  show "channel (snd (mark_new_prs prs w)) = channel w"
    by (simp add: mark_new_prs_eq)
  from h ne show "check_prs f cfg e1 w
        = notify_prs f cfg (pr_sends e1) 0 (rev (fst (mark_new_prs prs w)))
            (snd (mark_new_prs prs w))"
    by (simp add: check_prs_unfold)
  from h show in1: "item_id x \<in> seen_prs (snd (check_repository f cfg e1 w))"
    by (simp add: check_repository_fields)
  then show "item_id x \<notin> item_id `
      set (new_items (seen_prs (snd (check_repository f cfg e1 w))) prs2)"
    by (simp add: new_items_fresh fresh_ids)
next
  assume h: "issue_response e1 = Response 200 (Json issues_data) \<and> y \<in> set issues_data
        \<and> \<not> pull_request y"
  then have ne: "issues_data \<noteq> []" by auto
  from h have m: "y \<in> set (not_marked issues_data)"
    by (simp add: not_marked_set)
  from m show "item_id y \<in> seen_issues (snd (mark_new_issues issues_data w))"
    by (simp add: mark_new_issues_eq)
  show "channel (snd (mark_new_issues issues_data w)) = channel w"
    by (simp add: mark_new_issues_eq)
  from h ne show "check_issues f cfg e1 w
        = notify_issues f cfg (issue_sends e1) 0 (rev (fst (mark_new_issues issues_data w)))
            (snd (mark_new_issues issues_data w))"
    by (simp add: check_issues_unfold)
  from h m show "item_id y \<in> seen_issues (snd (check_issues f cfg e1 w))"
    by (simp add: check_issues_fields)
  assume r: "fst (check_prs f cfg e1 w) = None"
  from h m r show in1: "item_id y \<in> seen_issues (snd (check_repository f cfg e1 w))"
    by (simp add: check_repository_fields)
  then show "item_id y \<notin> item_id `
          set (new_items (seen_issues (snd (check_repository f cfg e1 w)))
                 (not_marked issues2))"
    by (simp add: new_items_fresh fresh_ids)
next
  show "channel (snd (check_repository f cfg e2 (snd (check_repository f cfg e1 w))))
       = channel (snd (check_repository f cfg e1 w))
         @ delivered (pr_sends e2) 0
             (map (pr_embed cfg)
               (parsed_prefix f
                 (rev (new_items (seen_prs (snd (check_repository f cfg e1 w)))
                        (fetched (pr_response e2))))))
         @ (if fst (check_prs f cfg e2 (snd (check_repository f cfg e1 w))) = None
            then delivered (issue_sends e2) 0
                   (map (issue_embed cfg)
                     (parsed_prefix f
                       (rev (new_items (seen_issues (snd (check_repository f cfg e1 w)))
                              (not_marked (fetched (issue_response e2)))))))
            else [])"
    by (rule check_repository_fields(3))
qed

text \<open>
  The same pull request and the same issue fetched in two cycles, every send of the
  first cycle failing and every send of the second accepted: both IDs are recorded by
  the first cycle and the channel is empty after the second.
\<close>

theorem seen_before_delivery_at_most_once_witness:
  "pr_response (ex_env (Response 200 (Json [ex_pr 1 None T1]))
       (Response 200 (Json [ex_issue 2 None False])) SendRaises WriteOk)
     = Response 200 (Json [ex_pr 1 None T1])
   \<and> ex_pr 1 None T1 \<in> set [ex_pr 1 None T1]
   \<and> issue_response (ex_env (Response 200 (Json [ex_pr 1 None T1]))
       (Response 200 (Json [ex_issue 2 None False])) SendRaises WriteOk)
     = Response 200 (Json [ex_issue 2 None False])
   \<and> ex_issue 2 None False \<in> set [ex_issue 2 None False]
   \<and> \<not> pull_request (ex_issue 2 None False)
   \<and> fst (check_prs ex_fromisoformat ex_cfg
        (ex_env (Response 200 (Json [ex_pr 1 None T1]))
           (Response 200 (Json [ex_issue 2 None False])) SendRaises WriteOk)
        (ex_world {} {} Missing)) = None
   \<and> check_repository ex_fromisoformat ex_cfg
        (ex_env (Response 200 (Json [ex_pr 1 None T1]))
           (Response 200 (Json [ex_issue 2 None False])) SendRaises WriteOk)
        (ex_world {} {} Missing)
       = (None,
          \<lparr> seen_prs = {1}, seen_issues = {2}, SEEN_FILE = Object (Ints {1}) (Ints {2}),
            channel = [],
            log = [CheckingRepository, ErrorSending, NewPRDetected 1 (py ''Fix''), ErrorSending,
                   NewIssueDetected 2 (py ''Bug'')] \<rparr>)
   \<and> channel (snd (check_repository ex_fromisoformat ex_cfg
        (ex_env (Response 200 (Json [ex_pr 1 None T1]))
           (Response 200 (Json [ex_issue 2 None False])) Sent WriteOk)
        (snd (check_repository ex_fromisoformat ex_cfg
          (ex_env (Response 200 (Json [ex_pr 1 None T1]))
             (Response 200 (Json [ex_issue 2 None False])) SendRaises WriteOk)
          (ex_world {} {} Missing))))) = []"
proof -
  have c1: "check_repository ex_fromisoformat ex_cfg
        (ex_env (Response 200 (Json [ex_pr 1 None T1]))
           (Response 200 (Json [ex_issue 2 None False])) SendRaises WriteOk)
        (ex_world {} {} Missing)
       = (None,
          \<lparr> seen_prs = {1}, seen_issues = {2}, SEEN_FILE = Object (Ints {1}) (Ints {2}),
            channel = [],
            log = [CheckingRepository, ErrorSending, NewPRDetected 1 (py ''Fix''), ErrorSending,
                   NewIssueDetected 2 (py ''Bug'')] \<rparr>)"
    by (simp add: check_repository_def check_prs_def check_issues_def fetch_github_data_def
        mark_new_prs_def mark_new_issues_def create_pr_embed_eq create_issue_embed_eq
        send_discord_message_def save_seen_items_def ex_world_def Let_def)
       (simp add: ex_pr_def ex_issue_def)
  note t = seen_before_delivery_at_most_once
    [of "ex_env (Response 200 (Json [ex_pr 1 None T1]))
           (Response 200 (Json [ex_issue 2 None False])) SendRaises WriteOk"
        "[ex_pr 1 None T1]" "ex_pr 1 None T1" "ex_world {} {} Missing" ex_fromisoformat ex_cfg
        "[ex_pr 1 None T1]"
        "[ex_issue 2 None False]" "ex_issue 2 None False" "[ex_issue 2 None False]"
        "ex_env (Response 200 (Json [ex_pr 1 None T1]))
           (Response 200 (Json [ex_issue 2 None False])) Sent WriteOk"]
  from t [THEN conjunct2, THEN conjunct2]
  have ch: "channel (snd (check_repository ex_fromisoformat ex_cfg
        (ex_env (Response 200 (Json [ex_pr 1 None T1]))
           (Response 200 (Json [ex_issue 2 None False])) Sent WriteOk)
        (snd (check_repository ex_fromisoformat ex_cfg
          (ex_env (Response 200 (Json [ex_pr 1 None T1]))
             (Response 200 (Json [ex_issue 2 None False])) SendRaises WriteOk)
          (ex_world {} {} Missing))))) = []"
    unfolding c1 by (simp add: check_prs_fields new_items_fresh not_marked_def)
  have k: "fst (check_prs ex_fromisoformat ex_cfg
        (ex_env (Response 200 (Json [ex_pr 1 None T1]))
           (Response 200 (Json [ex_issue 2 None False])) SendRaises WriteOk)
        (ex_world {} {} Missing)) = None"
    by (simp add: check_prs_fields new_items_fresh)
  show ?thesis
    by (intro conjI; (rule c1 | rule ch | rule k | simp))
qed

text \<open>
  C4. When the fetched list is ordered by creation time, newest first, for any order
  \<open>older\<close> on the timestamps: the messages a cycle adds to the channel for one kind
  are the accepted embeds of the new items in the reverse of their order in the
  fetched list (the new items are a subsequence of the fetched list), up to the first
  item whose timestamp does not parse, and all of them when every timestamp parses;
  this reverse is ordered oldest first. For pull requests and for issues.
\<close>

theorem delivered_oldest_first:
  "(pr_response env = Response 200 (Json prs)
      \<and> sorted_wrt (\<lambda>a b. older (created_at b) (created_at a)) prs \<longrightarrow>
      channel (snd (check_prs f cfg env w))
        = channel w @ delivered (pr_sends env) 0
            (map (pr_embed cfg) (parsed_prefix f (rev (new_items (seen_prs w) prs))))
    \<and> (all_parse f prs \<longrightarrow>
          parsed_prefix f (rev (new_items (seen_prs w) prs)) = rev (new_items (seen_prs w) prs))
    \<and> subseq (new_items (seen_prs w) prs) prs
    \<and> sorted_wrt (\<lambda>a b. older (created_at a) (created_at b)) (rev (new_items (seen_prs w) prs))
    \<and> sorted_wrt (\<lambda>a b. older (created_at a) (created_at b))
         (parsed_prefix f (rev (new_items (seen_prs w) prs))))
   \<and> (issue_response env = Response 200 (Json issues_data)
      \<and> sorted_wrt (\<lambda>a b. older (created_at b) (created_at a)) issues_data \<longrightarrow>
      channel (snd (check_issues f cfg env w))
        = channel w @ delivered (issue_sends env) 0
            (map (issue_embed cfg)
              (parsed_prefix f (rev (new_items (seen_issues w) (not_marked issues_data)))))
    \<and> (all_parse f issues_data \<longrightarrow>
          parsed_prefix f (rev (new_items (seen_issues w) (not_marked issues_data)))
            = rev (new_items (seen_issues w) (not_marked issues_data)))
    \<and> subseq (new_items (seen_issues w) (not_marked issues_data)) issues_data
    \<and> sorted_wrt (\<lambda>a b. older (created_at a) (created_at b))
         (rev (new_items (seen_issues w) (not_marked issues_data)))
    \<and> sorted_wrt (\<lambda>a b. older (created_at a) (created_at b))
         (parsed_prefix f (rev (new_items (seen_issues w) (not_marked issues_data)))))"
proof (intro conjI impI)
  assume h: "pr_response env = Response 200 (Json prs)
      \<and> sorted_wrt (\<lambda>a b. older (created_at b) (created_at a)) prs"
  from h show "channel (snd (check_prs f cfg env w))
        = channel w @ delivered (pr_sends env) 0
            (map (pr_embed cfg) (parsed_prefix f (rev (new_items (seen_prs w) prs))))"
    by (simp add: check_prs_fields)
  show "subseq (new_items (seen_prs w) prs) prs"
    by (rule new_items_subseq)
  from h show s: "sorted_wrt (\<lambda>a b. older (created_at a) (created_at b))
      (rev (new_items (seen_prs w) prs))"
    by (simp add: new_items_sorted_rev)
  then show "sorted_wrt (\<lambda>a b. older (created_at a) (created_at b))
         (parsed_prefix f (rev (new_items (seen_prs w) prs)))"
    unfolding parsed_prefix_def by (rule sorted_wrt_takeWhile)
  show "parsed_prefix f (rev (new_items (seen_prs w) prs)) = rev (new_items (seen_prs w) prs)"
    if "all_parse f prs"
  proof (rule all_parse_prefix)
    have "set (new_items (seen_prs w) prs) \<subseteq> set prs"
      by (simp add: new_items_fresh fresh_subset)
    with that show "all_parse f (rev (new_items (seen_prs w) prs))"
      by (simp add: all_parse_subset)
  qed
next
  assume h: "issue_response env = Response 200 (Json issues_data)
      \<and> sorted_wrt (\<lambda>a b. older (created_at b) (created_at a)) issues_data"
  from h show "channel (snd (check_issues f cfg env w))
        = channel w @ delivered (issue_sends env) 0
            (map (issue_embed cfg)
              (parsed_prefix f (rev (new_items (seen_issues w) (not_marked issues_data)))))"
    by (simp add: check_issues_fields)
  have "subseq (not_marked issues_data) issues_data"
    by (simp add: not_marked_def)
  with new_items_subseq [of "seen_issues w" "not_marked issues_data"]
  show "subseq (new_items (seen_issues w) (not_marked issues_data)) issues_data"
    by (rule subseq_order.trans)
  from h have "sorted_wrt (\<lambda>a b. older (created_at b) (created_at a)) (not_marked issues_data)"
    by (simp add: not_marked_def sorted_wrt_filter)
  then show s: "sorted_wrt (\<lambda>a b. older (created_at a) (created_at b))
         (rev (new_items (seen_issues w) (not_marked issues_data)))"
    by (rule new_items_sorted_rev)
  then show "sorted_wrt (\<lambda>a b. older (created_at a) (created_at b))
         (parsed_prefix f (rev (new_items (seen_issues w) (not_marked issues_data))))"
    unfolding parsed_prefix_def by (rule sorted_wrt_takeWhile)
  show "parsed_prefix f (rev (new_items (seen_issues w) (not_marked issues_data)))
            = rev (new_items (seen_issues w) (not_marked issues_data))"
    if "all_parse f issues_data"
  proof (rule all_parse_prefix)
    have "set (new_items (seen_issues w) (not_marked issues_data)) \<subseteq> set issues_data"
      using fresh_subset [of "seen_issues w" "not_marked issues_data"]
      by (auto simp: new_items_fresh not_marked_set)
    with that show "all_parse f (rev (new_items (seen_issues w) (not_marked issues_data)))"
      by (simp add: all_parse_subset)
  qed
qed

text \<open>
  Three new items created at \<open>T1 < T2 < T3\<close> and fetched newest first are delivered
  in the order \<open>T1, T2, T3\<close>.
\<close>

theorem delivered_oldest_first_witness:
  "pr_response ex_env3 = Response 200 (Json [ex_pr 3 None T3, ex_pr 2 None T2, ex_pr 1 None T1])
   \<and> sorted_wrt (\<lambda>a b. str_le (created_at b) (created_at a))
        [ex_pr 3 None T3, ex_pr 2 None T2, ex_pr 1 None T1]
   \<and> all_parse ex_fromisoformat [ex_pr 3 None T3, ex_pr 2 None T2, ex_pr 1 None T1]
   \<and> channel (snd (check_prs ex_fromisoformat ex_cfg ex_env3 (ex_world {} {} Missing)))
       = [EmbedMessage (pr_embed ex_cfg (ex_pr 1 None T1)),
          EmbedMessage (pr_embed ex_cfg (ex_pr 2 None T2)),
          EmbedMessage (pr_embed ex_cfg (ex_pr 3 None T3))]
   \<and> issue_response ex_env3
       = Response 200 (Json [ex_issue_at 6 T3, ex_issue_at 5 T2, ex_issue_at 4 T1])
   \<and> sorted_wrt (\<lambda>a b. str_le (created_at b) (created_at a))
        [ex_issue_at 6 T3, ex_issue_at 5 T2, ex_issue_at 4 T1]
   \<and> all_parse ex_fromisoformat [ex_issue_at 6 T3, ex_issue_at 5 T2, ex_issue_at 4 T1]
   \<and> channel (snd (check_issues ex_fromisoformat ex_cfg ex_env3 (ex_world {} {} Missing)))
       = [EmbedMessage (issue_embed ex_cfg (ex_issue_at 4 T1)),
          EmbedMessage (issue_embed ex_cfg (ex_issue_at 5 T2)),
          EmbedMessage (issue_embed ex_cfg (ex_issue_at 6 T3))]"
proof -
  have p: "pr_response ex_env3
      = Response 200 (Json [ex_pr 3 None T3, ex_pr 2 None T2, ex_pr 1 None T1])"
    and i: "issue_response ex_env3
      = Response 200 (Json [ex_issue_at 6 T3, ex_issue_at 5 T2, ex_issue_at 4 T1])"
    by (simp_all add: ex_env3_def)
  have sp: "sorted_wrt (\<lambda>a b. str_le (created_at b) (created_at a))
        [ex_pr 3 None T3, ex_pr 2 None T2, ex_pr 1 None T1]"
    and si: "sorted_wrt (\<lambda>a b. str_le (created_at b) (created_at a))
        [ex_issue_at 6 T3, ex_issue_at 5 T2, ex_issue_at 4 T1]"
    by (simp_all add: T_order)
  have ap: "all_parse ex_fromisoformat [ex_pr 3 None T3, ex_pr 2 None T2, ex_pr 1 None T1]"
    and ai: "all_parse ex_fromisoformat [ex_issue_at 6 T3, ex_issue_at 5 T2, ex_issue_at 4 T1]"
    by simp_all
  have np: "new_items {} [ex_pr 3 None T3, ex_pr 2 None T2, ex_pr 1 None T1]
      = [ex_pr 3 None T3, ex_pr 2 None T2, ex_pr 1 None T1]"
    by (simp add: new_items_fresh)
  have ni: "new_items {} (not_marked [ex_issue_at 6 T3, ex_issue_at 5 T2, ex_issue_at 4 T1])
      = [ex_issue_at 6 T3, ex_issue_at 5 T2, ex_issue_at 4 T1]"
    by (simp add: new_items_fresh not_marked_def)
  have out: "pr_sends ex_env3 = (\<lambda>k. Sent)" "issue_sends ex_env3 = (\<lambda>k. Sent)"
    by (simp_all add: ex_env3_def)
  note t = delivered_oldest_first [of ex_env3
      "[ex_pr 3 None T3, ex_pr 2 None T2, ex_pr 1 None T1]"
      str_le ex_fromisoformat ex_cfg "ex_world {} {} Missing"
      "[ex_issue_at 6 T3, ex_issue_at 5 T2, ex_issue_at 4 T1]"]
  from t [THEN conjunct1] p sp
  have cp: "channel (snd (check_prs ex_fromisoformat ex_cfg ex_env3 (ex_world {} {} Missing)))
       = [EmbedMessage (pr_embed ex_cfg (ex_pr 1 None T1)),
          EmbedMessage (pr_embed ex_cfg (ex_pr 2 None T2)),
          EmbedMessage (pr_embed ex_cfg (ex_pr 3 None T3))]"
    by (simp add: np out)
  from t [THEN conjunct2] i si
  have ci: "channel (snd (check_issues ex_fromisoformat ex_cfg ex_env3 (ex_world {} {} Missing)))
       = [EmbedMessage (issue_embed ex_cfg (ex_issue_at 4 T1)),
          EmbedMessage (issue_embed ex_cfg (ex_issue_at 5 T2)),
          EmbedMessage (issue_embed ex_cfg (ex_issue_at 6 T3))]"
    by (simp add: ni out)
  from p sp ap cp i si ai ci show ?thesis
    by (intro conjI)
qed

text \<open>
  C5. An item of the issues endpoint that carries the pull-request marker is removed
  by the filter before the partition pass: it is not in the list \<open>new_issues\<close> handed
  to the notification loop, and the IDs added to \<open>seen_issues\<close>, by the partition pass,
  by the issue phase and by the whole cycle, are those of the unmarked items only (none
  when the cycle ends before the issues); so its ID is not added unless an unmarked
  item has the same ID.
\<close>

theorem marked_issues_dropped:
  assumes "issue_response env = Response 200 (Json issues_data)"
      and "x \<in> set issues_data" and "pull_request x"
  shows "x \<notin> set (not_marked issues_data)
       \<and> x \<notin> set (fst (mark_new_issues issues_data w))
       \<and> seen_issues (snd (mark_new_issues issues_data w))
           = seen_issues w \<union> item_id ` {i \<in> set issues_data. \<not> pull_request i}
       \<and> check_issues f cfg env w
           = notify_issues f cfg (issue_sends env) 0
               (rev (fst (mark_new_issues issues_data w))) (snd (mark_new_issues issues_data w))
       \<and> seen_issues (snd (check_issues f cfg env w))
           = seen_issues w \<union> item_id ` {i \<in> set issues_data. \<not> pull_request i}
       \<and> seen_issues (snd (check_repository f cfg env w))
           = (if fst (check_prs f cfg env w) = None
              then seen_issues w \<union> item_id ` {i \<in> set issues_data. \<not> pull_request i}
              else seen_issues w)
       \<and> (item_id x \<notin> seen_issues w
            \<and> item_id x \<notin> item_id ` {i \<in> set issues_data. \<not> pull_request i} \<longrightarrow>
          item_id x \<notin> seen_issues (snd (check_repository f cfg env w)))"
proof (intro conjI impI)
  from assms(3) show a: "x \<notin> set (not_marked issues_data)"
    by (simp add: not_marked_set)
  have "set (fst (mark_new_issues issues_data w)) \<subseteq> set (not_marked issues_data)"
    by (simp add: mark_new_issues_eq new_items_fresh fresh_subset)
  with a show "x \<notin> set (fst (mark_new_issues issues_data w))"
    by blast
  show "seen_issues (snd (mark_new_issues issues_data w))
           = seen_issues w \<union> item_id ` {i \<in> set issues_data. \<not> pull_request i}"
    by (simp add: mark_new_issues_eq not_marked_set)
  from assms(2) have "issues_data \<noteq> []" by auto
  with assms(1) show "check_issues f cfg env w
           = notify_issues f cfg (issue_sends env) 0
               (rev (fst (mark_new_issues issues_data w))) (snd (mark_new_issues issues_data w))"
    by (rule check_issues_unfold)
  from assms(1) show "seen_issues (snd (check_issues f cfg env w))
           = seen_issues w \<union> item_id ` {i \<in> set issues_data. \<not> pull_request i}"
    by (simp add: check_issues_fields not_marked_set)
  from assms(1) show c: "seen_issues (snd (check_repository f cfg env w))
           = (if fst (check_prs f cfg env w) = None
              then seen_issues w \<union> item_id ` {i \<in> set issues_data. \<not> pull_request i}
              else seen_issues w)"
    by (simp add: check_repository_fields not_marked_set)
  show "item_id x \<notin> seen_issues (snd (check_repository f cfg env w))"
    if "item_id x \<notin> seen_issues w
          \<and> item_id x \<notin> item_id ` {i \<in> set issues_data. \<not> pull_request i}"
    using that unfolding c by (simp split: if_splits)
qed

text \<open>
  A marked item with ID 7 followed by an unmarked one with ID 8: only 8 is recorded
  and only the second is sent.
\<close>

theorem marked_issues_dropped_witness:
  "issue_response (ex_env GetRaises
       (Response 200 (Json [ex_issue 7 None True, ex_issue 8 None False])) Sent WriteOk)
     = Response 200 (Json [ex_issue 7 None True, ex_issue 8 None False])
   \<and> ex_issue 7 None True \<in> set [ex_issue 7 None True, ex_issue 8 None False]
   \<and> pull_request (ex_issue 7 None True)
   \<and> ex_issue 7 None True \<notin> set (fst (mark_new_issues
         [ex_issue 7 None True, ex_issue 8 None False] (ex_world {} {} Missing)))
   \<and> fst (mark_new_issues [ex_issue 7 None True, ex_issue 8 None False] (ex_world {} {} Missing))
       = [ex_issue 8 None False]
   \<and> check_repository ex_fromisoformat ex_cfg
        (ex_env GetRaises (Response 200 (Json [ex_issue 7 None True, ex_issue 8 None False]))
           Sent WriteOk) (ex_world {} {} Missing)
       = (None,
          \<lparr> seen_prs = {}, seen_issues = {8}, SEEN_FILE = Object (Ints {}) (Ints {8}),
            channel = [EmbedMessage (issue_embed ex_cfg (ex_issue 8 None False))],
            log = [CheckingRepository, ErrorFetching, NewIssueDetected 8 (py ''Bug'')] \<rparr>)"
proof -
  have a: "issue_response (ex_env GetRaises
       (Response 200 (Json [ex_issue 7 None True, ex_issue 8 None False])) Sent WriteOk)
     = Response 200 (Json [ex_issue 7 None True, ex_issue 8 None False])"
    and b: "ex_issue 7 None True \<in> set [ex_issue 7 None True, ex_issue 8 None False]"
    and c: "pull_request (ex_issue 7 None True)"
    by simp_all
  have m: "fst (mark_new_issues [ex_issue 7 None True, ex_issue 8 None False]
      (ex_world {} {} Missing)) = [ex_issue 8 None False]"
    by (simp add: mark_new_issues_eq new_items_fresh not_marked_def)
  note t = marked_issues_dropped [OF a b c, of "ex_world {} {} Missing" ex_fromisoformat ex_cfg]
  have r: "check_repository ex_fromisoformat ex_cfg
        (ex_env GetRaises (Response 200 (Json [ex_issue 7 None True, ex_issue 8 None False]))
           Sent WriteOk) (ex_world {} {} Missing)
       = (None,
          \<lparr> seen_prs = {}, seen_issues = {8}, SEEN_FILE = Object (Ints {}) (Ints {8}),
            channel = [EmbedMessage (issue_embed ex_cfg (ex_issue 8 None False))],
            log = [CheckingRepository, ErrorFetching, NewIssueDetected 8 (py ''Bug'')] \<rparr>)"
    by (simp add: check_repository_def check_prs_def check_issues_def fetch_github_data_def
        mark_new_issues_def create_issue_embed_eq send_discord_message_def save_seen_items_def
        ex_world_def Let_def)
       (simp add: ex_issue_def)
  from a b c t [THEN conjunct2, THEN conjunct1] m r show ?thesis
    by (intro conjI)
qed

text \<open>
  C6. No operation of the check cycle removes an ID from a seen set: the fetch, the
  partition passes, the delivery loops, the write of the file, the whole cycle and
  any sequence of cycles, ended by an exception or not, leave every ID of \<open>seen_prs\<close>
  and \<open>seen_issues\<close> in place. The reset command, run by an administrator in the
  configured channel, empties both sets, and changes none otherwise.
\<close>

theorem seen_ids_never_removed:
  "seen_prs w \<subseteq> seen_prs (snd (fetch_github_data (pr_response env) w))
   \<and> seen_prs w \<subseteq> seen_prs (snd (mark_new_prs prs w))
   \<and> seen_issues w \<subseteq> seen_issues (snd (mark_new_issues issues_data w))
   \<and> seen_prs w \<subseteq> seen_prs (snd (notify_prs f cfg out k new_prs w))
   \<and> seen_issues w \<subseteq> seen_issues (snd (notify_issues f cfg out k new_issues w))
   \<and> seen_prs w \<subseteq> seen_prs (save_seen_items r w)
   \<and> seen_issues w \<subseteq> seen_issues (save_seen_items r w)
   \<and> seen_prs w \<subseteq> seen_prs (snd (check_repository f cfg env w))
   \<and> seen_issues w \<subseteq> seen_issues (snd (check_repository f cfg env w))
   \<and> seen_prs w \<subseteq> seen_prs (snd (run_cycles f cfg envs w))
   \<and> seen_issues w \<subseteq> seen_issues (snd (run_cycles f cfg envs w))
   \<and> seen_prs (reset cfg c r ok w)
       = (if ctx_administrator c \<and> ctx_channel_id c = DISCORD_CHANNEL_ID cfg then {}
          else seen_prs w)
   \<and> seen_issues (reset cfg c r ok w)
       = (if ctx_administrator c \<and> ctx_channel_id c = DISCORD_CHANNEL_ID cfg then {}
          else seen_issues w)"
  using run_cycles_seen [of w f cfg envs]
  by (auto simp: mark_new_prs_eq mark_new_issues_eq check_repository_fields reset_seen)

text \<open>
  Two cycles from the sets \<open>{1}\<close> and \<open>{2}\<close>, a cycle that an unparseable timestamp
  ends, and a reset.
\<close>

theorem seen_ids_never_removed_witness:
  "seen_prs (ex_world {1} {2} Missing)
     \<subseteq> seen_prs (snd (run_cycles ex_fromisoformat ex_cfg
         [ex_env GetRaises GetRaises Sent WriteOk,
          ex_env (Response 200 (Json [ex_pr 3 None T3])) (Response 403 JsonRaises) NoChannel
            DumpFails]
         (ex_world {1} {2} Missing)))
   \<and> run_cycles ex_fromisoformat ex_cfg
        [ex_env GetRaises GetRaises Sent WriteOk,
         ex_env (Response 200 (Json [ex_pr 3 None T3])) (Response 403 JsonRaises) NoChannel
           DumpFails]
        (ex_world {1} {2} Missing)
       = (None,
          \<lparr> seen_prs = {1, 3}, seen_issues = {2}, SEEN_FILE = Unreadable, channel = [],
            log = [CheckingRepository, ErrorFetching, ErrorFetching,
                   CheckingRepository, ChannelNotFound, NewPRDetected 3 (py ''Fix''),
                   RateLimitExceeded, ErrorSaving] \<rparr>)
   \<and> check_repository ex_fromisoformat ex_cfg
        (ex_env (Response 200 (Json [ex_pr 3 None []])) GetRaises Sent WriteOk)
        (ex_world {1} {2} Missing)
       = (Some ValueError,
          \<lparr> seen_prs = {1, 3}, seen_issues = {2}, SEEN_FILE = Missing, channel = [],
            log = [CheckingRepository] \<rparr>)
   \<and> seen_prs (reset ex_cfg \<lparr> ctx_channel_id = 5, ctx_administrator = True \<rparr> WriteOk True
        (ex_world {1} {2} Missing)) = {}"
proof -
  have c1: "check_repository ex_fromisoformat ex_cfg (ex_env GetRaises GetRaises Sent WriteOk)
      (ex_world {1} {2} Missing)
    = (None, \<lparr> seen_prs = {1}, seen_issues = {2}, SEEN_FILE = Object (Ints {1}) (Ints {2}),
               channel = [], log = [CheckingRepository, ErrorFetching, ErrorFetching] \<rparr>)"
    by (simp add: check_repository_def check_prs_def check_issues_def fetch_github_data_def
        save_seen_items_def ex_world_def Let_def)
  have c2: "check_repository ex_fromisoformat ex_cfg
      (ex_env (Response 200 (Json [ex_pr 3 None T3])) (Response 403 JsonRaises) NoChannel
         DumpFails)
      \<lparr> seen_prs = {1}, seen_issues = {2}, SEEN_FILE = Object (Ints {1}) (Ints {2}),
        channel = [], log = [CheckingRepository, ErrorFetching, ErrorFetching] \<rparr>
    = (None,
          \<lparr> seen_prs = {1, 3}, seen_issues = {2}, SEEN_FILE = Unreadable, channel = [],
            log = [CheckingRepository, ErrorFetching, ErrorFetching,
                   CheckingRepository, ChannelNotFound, NewPRDetected 3 (py ''Fix''),
                   RateLimitExceeded, ErrorSaving] \<rparr>)"
    by (simp add: check_repository_def check_prs_def check_issues_def fetch_github_data_def
        mark_new_prs_def create_pr_embed_eq send_discord_message_def save_seen_items_def
        Let_def insert_commute)
       (simp add: ex_pr_def)
  have r: "run_cycles ex_fromisoformat ex_cfg
        [ex_env GetRaises GetRaises Sent WriteOk,
         ex_env (Response 200 (Json [ex_pr 3 None T3])) (Response 403 JsonRaises) NoChannel
           DumpFails]
        (ex_world {1} {2} Missing)
       = (None,
          \<lparr> seen_prs = {1, 3}, seen_issues = {2}, SEEN_FILE = Unreadable, channel = [],
            log = [CheckingRepository, ErrorFetching, ErrorFetching,
                   CheckingRepository, ChannelNotFound, NewPRDetected 3 (py ''Fix''),
                   RateLimitExceeded, ErrorSaving] \<rparr>)"
    by (simp add: c1 c2)
  have a: "check_repository ex_fromisoformat ex_cfg
        (ex_env (Response 200 (Json [ex_pr 3 None []])) GetRaises Sent WriteOk)
        (ex_world {1} {2} Missing)
       = (Some ValueError,
          \<lparr> seen_prs = {1, 3}, seen_issues = {2}, SEEN_FILE = Missing, channel = [],
            log = [CheckingRepository] \<rparr>)"
    by (simp add: check_repository_def check_prs_def fetch_github_data_def
        mark_new_prs_def create_pr_embed_eq ex_world_def Let_def insert_commute)
  have z: "seen_prs (reset ex_cfg \<lparr> ctx_channel_id = 5, ctx_administrator = True \<rparr> WriteOk True
        (ex_world {1} {2} Missing)) = {}"
    by (simp add: reset_seen ex_cfg_def)
  note t = seen_ids_never_removed
    [of "ex_world {1} {2} Missing" "ex_env GetRaises GetRaises Sent WriteOk" "[]" "[]"
        ex_fromisoformat ex_cfg "\<lambda>k. Sent" 0 "[]" "[]" WriteOk
        "[ex_env GetRaises GetRaises Sent WriteOk,
          ex_env (Response 200 (Json [ex_pr 3 None T3])) (Response 403 JsonRaises) NoChannel
            DumpFails]"
        "\<lparr> ctx_channel_id = 5, ctx_administrator = True \<rparr>" True]
  from t [THEN conjunct2, THEN conjunct2, THEN conjunct2, THEN conjunct2, THEN conjunct2,
      THEN conjunct2, THEN conjunct2, THEN conjunct2, THEN conjunct2, THEN conjunct1] r a z
  show ?thesis
    by (intro conjI)
qed

text \<open>
  C8, as stated, fails: with a rate-limited pull-request fetch and a write of the
  file that fails, the cycle records the new issue in \<open>seen_issues\<close> and sends it, but
  the file is not written: \<open>save_seen_items\<close> catches the error, prints it and returns.
\<close>

theorem pr_unavailable_not_persisted:
  "fst (fetch_github_data
         (pr_response (ex_env (Response 403 JsonRaises)
            (Response 200 (Json [ex_issue 2 None False])) Sent OpenFails))
         (ex_world {1} {} Missing)) = None
   \<and> check_repository ex_fromisoformat ex_cfg
        (ex_env (Response 403 JsonRaises) (Response 200 (Json [ex_issue 2 None False])) Sent
           OpenFails)
        (ex_world {1} {} Missing)
       = (None,
          \<lparr> seen_prs = {1}, seen_issues = {2}, SEEN_FILE = Missing,
            channel = [EmbedMessage (issue_embed ex_cfg (ex_issue 2 None False))],
            log = [CheckingRepository, RateLimitExceeded, NewIssueDetected 2 (py ''Bug''),
                   ErrorSaving] \<rparr>)"
  by (simp add: check_repository_def check_prs_def check_issues_def fetch_github_data_def
        mark_new_issues_def create_issue_embed_eq send_discord_message_def save_seen_items_def
        ex_world_def Let_def)
     (simp add: ex_issue_def)

text \<open>
  C8, amended. When the pull-request fetch returns \<open>None\<close>, the pull-request phase
  returns without touching \<open>seen_prs\<close> or the channel, and the cycle leaves \<open>seen_prs\<close>
  as it was; the issues are still fetched, marked and notified as in any cycle. When
  the issue phase returns, the cycle ends with the write of the file, which then holds
  both sets if the write succeeds; a failed write leaves the file as it was, or
  unreadable.
\<close>

theorem pr_unavailable_issues_proceed:
  assumes "fst (fetch_github_data (pr_response env) w0) = None"
  shows "seen_prs (snd (check_repository f cfg env w)) = seen_prs w
       \<and> fst (check_prs f cfg env w) = None
       \<and> seen_prs (snd (check_prs f cfg env w)) = seen_prs w
       \<and> channel (snd (check_prs f cfg env w)) = channel w
       \<and> seen_issues (snd (check_repository f cfg env w))
           = seen_issues w \<union> item_id ` set (not_marked (fetched (issue_response env)))
       \<and> channel (snd (check_repository f cfg env w))
           = channel w @ delivered (issue_sends env) 0
               (map (issue_embed cfg)
                 (parsed_prefix f
                   (rev (new_items (seen_issues w)
                          (not_marked (fetched (issue_response env)))))))
       \<and> fst (check_repository f cfg env w) = fst (check_issues f cfg env w)
       \<and> SEEN_FILE (snd (check_repository f cfg env w))
           = (if fst (check_issues f cfg env w) = None
              then (case save_result env of
                      WriteOk \<Rightarrow>
                        Object (Ints (seen_prs w))
                          (Ints (seen_issues w
                                 \<union> item_id ` set (not_marked (fetched (issue_response env)))))
                    | OpenFails \<Rightarrow> SEEN_FILE w
                    | DumpFails \<Rightarrow> Unreadable)
              else SEEN_FILE w)"
proof -
  from assms have f: "fetched (pr_response env) = []"
    by (rule fetched_unavailable)
  then have p: "fst (check_prs f cfg env w) = None"
    by (simp add: check_prs_fields)
  have r: "fst (check_issues f cfg env w) = None \<or> fst (check_issues f cfg env w) = Some ValueError"
    by (simp add: check_issues_fields)
  from f p r show ?thesis
    by (auto simp: check_repository_fields check_prs_fields split: write_result.splits)
qed

text \<open>
  A rate-limited pull-request fetch and one new issue; and a cycle whose two fetches
  fail.
\<close>

theorem pr_unavailable_issues_proceed_witness:
  "fst (fetch_github_data (pr_response (ex_env (Response 403 JsonRaises)
          (Response 200 (Json [ex_issue 2 None False])) Sent WriteOk)) (ex_world {1} {} Missing))
     = None
   \<and> seen_prs (snd (check_repository ex_fromisoformat ex_cfg (ex_env (Response 403 JsonRaises)
          (Response 200 (Json [ex_issue 2 None False])) Sent WriteOk) (ex_world {1} {} Missing)))
       = seen_prs (ex_world {1} {} Missing)
   \<and> check_repository ex_fromisoformat ex_cfg (ex_env (Response 403 JsonRaises)
          (Response 200 (Json [ex_issue 2 None False])) Sent WriteOk) (ex_world {1} {} Missing)
       = (None,
          \<lparr> seen_prs = {1}, seen_issues = {2}, SEEN_FILE = Object (Ints {1}) (Ints {2}),
            channel = [EmbedMessage (issue_embed ex_cfg (ex_issue 2 None False))],
            log = [CheckingRepository, RateLimitExceeded, NewIssueDetected 2 (py ''Bug'')] \<rparr>)
   \<and> check_repository ex_fromisoformat ex_cfg (ex_env GetRaises GetRaises Sent WriteOk)
          (ex_world {1} {} Missing)
       = (None,
          \<lparr> seen_prs = {1}, seen_issues = {}, SEEN_FILE = Object (Ints {1}) (Ints {}),
            channel = [], log = [CheckingRepository, ErrorFetching, ErrorFetching] \<rparr>)"
proof -
  have a: "fst (fetch_github_data (pr_response (ex_env (Response 403 JsonRaises)
          (Response 200 (Json [ex_issue 2 None False])) Sent WriteOk)) (ex_world {1} {} Missing))
     = None"
    by (simp add: fetch_github_data_def)
  have r: "check_repository ex_fromisoformat ex_cfg (ex_env (Response 403 JsonRaises)
          (Response 200 (Json [ex_issue 2 None False])) Sent WriteOk) (ex_world {1} {} Missing)
       = (None,
          \<lparr> seen_prs = {1}, seen_issues = {2}, SEEN_FILE = Object (Ints {1}) (Ints {2}),
            channel = [EmbedMessage (issue_embed ex_cfg (ex_issue 2 None False))],
            log = [CheckingRepository, RateLimitExceeded, NewIssueDetected 2 (py ''Bug'')] \<rparr>)"
    by (simp add: check_repository_def check_prs_def check_issues_def fetch_github_data_def
        mark_new_issues_def create_issue_embed_eq send_discord_message_def save_seen_items_def
        ex_world_def Let_def)
       (simp add: ex_issue_def)
  have b: "check_repository ex_fromisoformat ex_cfg (ex_env GetRaises GetRaises Sent WriteOk)
          (ex_world {1} {} Missing)
       = (None,
          \<lparr> seen_prs = {1}, seen_issues = {}, SEEN_FILE = Object (Ints {1}) (Ints {}),
            channel = [], log = [CheckingRepository, ErrorFetching, ErrorFetching] \<rparr>)"
    by (simp add: check_repository_def check_prs_def check_issues_def fetch_github_data_def
        save_seen_items_def ex_world_def Let_def)
  from a pr_unavailable_issues_proceed [OF a, of ex_fromisoformat ex_cfg "ex_world {1} {} Missing",
      THEN conjunct1] r b
  show ?thesis
    by (intro conjI)
qed

text \<open>
  C9, as stated, fails: when the write of the file fails, the reset command empties
  both sets but the file still holds the IDs 1 and 2.
\<close>

theorem reset_not_persisted:
  "ctx_administrator \<lparr> ctx_channel_id = 5, ctx_administrator = True \<rparr>
   \<and> ctx_channel_id \<lparr> ctx_channel_id = 5, ctx_administrator = True \<rparr> = DISCORD_CHANNEL_ID ex_cfg
   \<and> reset ex_cfg \<lparr> ctx_channel_id = 5, ctx_administrator = True \<rparr> OpenFails True
        (ex_world {1} {2} (Object (Ints {1}) (Ints {2})))
       = \<lparr> seen_prs = {}, seen_issues = {}, SEEN_FILE = Object (Ints {1}) (Ints {2}),
           channel = [TextMessage reset_reply], log = [ErrorSaving] \<rparr>"
  by (simp add: reset_def save_seen_items_def ex_cfg_def ex_world_def Let_def)

text \<open>
  C9, amended. The reset command, run by an administrator in the configured channel,
  empties both seen sets and writes the file, which holds the two empty sets when the
  write succeeds; a failed write leaves the file as it was, or unreadable. After the
  command every ID of a fetched list is the ID of a new item of the next cycle (the
  whole list is new when its IDs are distinct), also after further cycles that did
  not fetch that ID, and the next cycle sends the embeds of its new items, oldest
  first, as any cycle does.
\<close>

theorem reset_makes_seen_items_new:
  assumes "ctx_administrator c" and "ctx_channel_id c = DISCORD_CHANNEL_ID cfg"
  shows "seen_prs (reset cfg c r ok w) = {}
       \<and> seen_issues (reset cfg c r ok w) = {}
       \<and> SEEN_FILE (reset cfg c r ok w)
           = (case r of WriteOk \<Rightarrow> Object (Ints {}) (Ints {}) | OpenFails \<Rightarrow> SEEN_FILE w
              | DumpFails \<Rightarrow> Unreadable)
       \<and> item_id ` set (new_items (seen_prs (reset cfg c r ok w)) prs) = item_id ` set prs
       \<and> item_id ` set (new_items (seen_issues (reset cfg c r ok w)) (not_marked issues_data))
           = item_id ` set (not_marked issues_data)
       \<and> (distinct (map item_id prs) \<longrightarrow> new_items (seen_prs (reset cfg c r ok w)) prs = prs)
       \<and> (distinct (map item_id (not_marked issues_data)) \<longrightarrow>
            new_items (seen_issues (reset cfg c r ok w)) (not_marked issues_data)
              = not_marked issues_data)
       \<and> (x \<in> set prs
            \<and> (\<forall>env\<in>set envs. item_id x \<notin> item_id ` set (fetched (pr_response env))) \<longrightarrow>
          item_id x \<in> item_id `
            set (new_items (seen_prs (snd (run_cycles f cfg envs (reset cfg c r ok w)))) prs))
       \<and> (y \<in> set (not_marked issues_data)
            \<and> (\<forall>env\<in>set envs.
                  item_id y \<notin> item_id ` set (not_marked (fetched (issue_response env)))) \<longrightarrow>
          item_id y \<in> item_id `
            set (new_items (seen_issues (snd (run_cycles f cfg envs (reset cfg c r ok w))))
                   (not_marked issues_data)))
       \<and> channel (snd (check_repository f cfg env (reset cfg c r ok w)))
           = channel (reset cfg c r ok w)
             @ delivered (pr_sends env) 0
                 (map (pr_embed cfg)
                   (parsed_prefix f (rev (new_items {} (fetched (pr_response env))))))
             @ (if fst (check_prs f cfg env (reset cfg c r ok w)) = None
                then delivered (issue_sends env) 0
                       (map (issue_embed cfg)
                         (parsed_prefix f
                           (rev (new_items {} (not_marked (fetched (issue_response env)))))))
                else [])"
proof -
  have e: "seen_prs (reset cfg c r ok w) = {}" "seen_issues (reset cfg c r ok w) = {}"
    using assms by (simp_all add: reset_seen)
  have fl: "SEEN_FILE (reset cfg c r ok w)
           = (case r of WriteOk \<Rightarrow> Object (Ints {}) (Ints {}) | OpenFails \<Rightarrow> SEEN_FILE w
              | DumpFails \<Rightarrow> Unreadable)"
    using assms by (simp add: reset_file)
  have p: "item_id x \<in> item_id `
            set (new_items (seen_prs (snd (run_cycles f cfg envs (reset cfg c r ok w)))) prs)"
    if "x \<in> set prs
        \<and> (\<forall>env\<in>set envs. item_id x \<notin> item_id ` set (fetched (pr_response env)))"
  proof (rule not_seen_is_new)
    from that show "x \<in> set prs" by simp
    from that run_cycles_seen_prs [of f cfg envs "reset cfg c r ok w"]
    show "item_id x \<notin> seen_prs (snd (run_cycles f cfg envs (reset cfg c r ok w)))"
      by (auto simp: e)
  qed
  have i: "item_id y \<in> item_id `
            set (new_items (seen_issues (snd (run_cycles f cfg envs (reset cfg c r ok w))))
                   (not_marked issues_data))"
    if "y \<in> set (not_marked issues_data)
        \<and> (\<forall>env\<in>set envs.
              item_id y \<notin> item_id ` set (not_marked (fetched (issue_response env))))"
  proof (rule not_seen_is_new)
    from that show "y \<in> set (not_marked issues_data)" by simp
    from that run_cycles_seen_issues [of f cfg envs "reset cfg c r ok w"]
    show "item_id y \<notin> seen_issues (snd (run_cycles f cfg envs (reset cfg c r ok w)))"
      by (auto simp: e)
  qed
  from p i show ?thesis
    by (simp add: e fl new_items_empty_ids new_items_empty_distinct check_repository_fields)
qed

text \<open>
  The pull request 1 and the issue 2 are known; after a reset the next cycle sends
  both, and without the reset it sends nothing.
\<close>

theorem reset_makes_seen_items_new_witness:
  "ctx_administrator \<lparr> ctx_channel_id = 5, ctx_administrator = True \<rparr>
   \<and> ctx_channel_id \<lparr> ctx_channel_id = 5, ctx_administrator = True \<rparr> = DISCORD_CHANNEL_ID ex_cfg
   \<and> seen_prs (reset ex_cfg \<lparr> ctx_channel_id = 5, ctx_administrator = True \<rparr> WriteOk True
        (ex_world {1} {2} (Object (Ints {1}) (Ints {2})))) = {}
   \<and> reset ex_cfg \<lparr> ctx_channel_id = 5, ctx_administrator = True \<rparr> WriteOk True
        (ex_world {1} {2} (Object (Ints {1}) (Ints {2})))
       = \<lparr> seen_prs = {}, seen_issues = {}, SEEN_FILE = Object (Ints {}) (Ints {}),
           channel = [TextMessage reset_reply], log = [] \<rparr>
   \<and> check_repository ex_fromisoformat ex_cfg
        (ex_env (Response 200 (Json [ex_pr 1 None T1]))
           (Response 200 (Json [ex_issue 2 None False])) Sent WriteOk)
        (reset ex_cfg \<lparr> ctx_channel_id = 5, ctx_administrator = True \<rparr> WriteOk True
          (ex_world {1} {2} (Object (Ints {1}) (Ints {2}))))
       = (None,
          \<lparr> seen_prs = {1}, seen_issues = {2}, SEEN_FILE = Object (Ints {1}) (Ints {2}),
            channel = [TextMessage reset_reply,
                       EmbedMessage (pr_embed ex_cfg (ex_pr 1 None T1)),
                       EmbedMessage (issue_embed ex_cfg (ex_issue 2 None False))],
            log = [CheckingRepository, NewPRDetected 1 (py ''Fix''),
                   NewIssueDetected 2 (py ''Bug'')] \<rparr>)
   \<and> channel (snd (check_repository ex_fromisoformat ex_cfg
        (ex_env (Response 200 (Json [ex_pr 1 None T1]))
           (Response 200 (Json [ex_issue 2 None False])) Sent WriteOk)
        (ex_world {1} {2} (Object (Ints {1}) (Ints {2}))))) = []"
proof -
  have a: "ctx_administrator \<lparr> ctx_channel_id = 5, ctx_administrator = True \<rparr>"
    and b: "ctx_channel_id \<lparr> ctx_channel_id = 5, ctx_administrator = True \<rparr>
        = DISCORD_CHANNEL_ID ex_cfg"
    by (simp_all add: ex_cfg_def)
  have r: "reset ex_cfg \<lparr> ctx_channel_id = 5, ctx_administrator = True \<rparr> WriteOk True
        (ex_world {1} {2} (Object (Ints {1}) (Ints {2})))
       = \<lparr> seen_prs = {}, seen_issues = {}, SEEN_FILE = Object (Ints {}) (Ints {}),
           channel = [TextMessage reset_reply], log = [] \<rparr>"
    by (simp add: reset_def save_seen_items_def ex_cfg_def ex_world_def Let_def)
  have c: "check_repository ex_fromisoformat ex_cfg
        (ex_env (Response 200 (Json [ex_pr 1 None T1]))
           (Response 200 (Json [ex_issue 2 None False])) Sent WriteOk)
        (reset ex_cfg \<lparr> ctx_channel_id = 5, ctx_administrator = True \<rparr> WriteOk True
          (ex_world {1} {2} (Object (Ints {1}) (Ints {2}))))
       = (None,
          \<lparr> seen_prs = {1}, seen_issues = {2}, SEEN_FILE = Object (Ints {1}) (Ints {2}),
            channel = [TextMessage reset_reply,
                       EmbedMessage (pr_embed ex_cfg (ex_pr 1 None T1)),
                       EmbedMessage (issue_embed ex_cfg (ex_issue 2 None False))],
            log = [CheckingRepository, NewPRDetected 1 (py ''Fix''),
                   NewIssueDetected 2 (py ''Bug'')] \<rparr>)"
    unfolding r
    by (simp add: check_repository_def check_prs_def check_issues_def fetch_github_data_def
        mark_new_prs_def mark_new_issues_def create_pr_embed_eq create_issue_embed_eq
        send_discord_message_def save_seen_items_def Let_def)
       (simp add: ex_pr_def ex_issue_def)
  have n: "channel (snd (check_repository ex_fromisoformat ex_cfg
        (ex_env (Response 200 (Json [ex_pr 1 None T1]))
           (Response 200 (Json [ex_issue 2 None False])) Sent WriteOk)
        (ex_world {1} {2} (Object (Ints {1}) (Ints {2}))))) = []"
    by (simp add: check_repository_fields check_prs_fields new_items_fresh not_marked_def)
  note t = reset_makes_seen_items_new [OF a b, of WriteOk True
      "ex_world {1} {2} (Object (Ints {1}) (Ints {2}))"]
  from a b t [THEN conjunct1] r c n show ?thesis
    by (intro conjI)
qed

text \<open>
  C10. When the body of the \<open>try\<close> of \<open>load_seen_items\<close> raises (the file cannot be
  read or decoded, or one of its two entries cannot be turned into a set), the load
  returns normally with both seen sets empty, whatever they held before, and one line
  printed; nothing else changes. Every ID of a list fetched by the next cycle is then
  the ID of a new item, and the cycle sends the embeds of its new items as any cycle
  does.
\<close>

theorem load_failure_empties_seen:
  assumes "load_try w = Inl e"
  shows "(SEEN_FILE w = Unreadable
          \<or> (\<exists>p i. SEEN_FILE w = Object p i \<and> (p = NotIterable \<or> i = NotIterable)))
       \<and> seen_prs (load_seen_items w) = {}
       \<and> seen_issues (load_seen_items w) = {}
       \<and> load_seen_items w
           = w \<lparr> seen_prs := {}, seen_issues := {}, log := log w @ [ErrorLoading] \<rparr>
       \<and> item_id ` set (new_items (seen_prs (load_seen_items w)) prs) = item_id ` set prs
       \<and> item_id ` set (new_items (seen_issues (load_seen_items w)) (not_marked issues_data))
           = item_id ` set (not_marked issues_data)
       \<and> (distinct (map item_id prs) \<longrightarrow> new_items (seen_prs (load_seen_items w)) prs = prs)
       \<and> (distinct (map item_id (not_marked issues_data)) \<longrightarrow>
            new_items (seen_issues (load_seen_items w)) (not_marked issues_data)
              = not_marked issues_data)
       \<and> channel (snd (check_repository f cfg env (load_seen_items w)))
           = channel w
             @ delivered (pr_sends env) 0
                 (map (pr_embed cfg)
                   (parsed_prefix f (rev (new_items {} (fetched (pr_response env))))))
             @ (if fst (check_prs f cfg env (load_seen_items w)) = None
                then delivered (issue_sends env) 0
                       (map (issue_embed cfg)
                         (parsed_prefix f
                           (rev (new_items {} (not_marked (fetched (issue_response env)))))))
                else [])"
proof -
  from assms have "SEEN_FILE w = Unreadable
          \<or> (\<exists>p i. SEEN_FILE w = Object p i \<and> (p = NotIterable \<or> i = NotIterable))"
    by (simp add: load_try_fails)
  moreover from assms have "load_seen_items w
           = w \<lparr> seen_prs := {}, seen_issues := {}, log := log w @ [ErrorLoading] \<rparr>"
    by (simp add: load_seen_items_def)
  ultimately show ?thesis
    by (simp add: load_failed_fields [OF assms] new_items_empty_ids new_items_empty_distinct
        check_repository_fields)
qed

text \<open>
  The sets \<open>{1}\<close> and \<open>{2}\<close> in memory and a file whose \<open>issues\<close> entry is not a list:
  both sets are emptied and the next cycle sends the pull request 1 and the issue 2
  again.
\<close>

theorem load_failure_empties_seen_witness:
  "load_try (ex_world {1} {2} (Object (Ints {1}) NotIterable)) = Inl ()
   \<and> seen_prs (load_seen_items (ex_world {1} {2} (Object (Ints {1}) NotIterable))) = {}
   \<and> load_seen_items (ex_world {1} {2} (Object (Ints {1}) NotIterable))
       = \<lparr> seen_prs = {}, seen_issues = {}, SEEN_FILE = Object (Ints {1}) NotIterable,
           channel = [], log = [ErrorLoading] \<rparr>
   \<and> check_repository ex_fromisoformat ex_cfg
        (ex_env (Response 200 (Json [ex_pr 1 None T1]))
           (Response 200 (Json [ex_issue 2 None False])) Sent WriteOk)
        (load_seen_items (ex_world {1} {2} (Object (Ints {1}) NotIterable)))
       = (None,
          \<lparr> seen_prs = {1}, seen_issues = {2}, SEEN_FILE = Object (Ints {1}) (Ints {2}),
            channel = [EmbedMessage (pr_embed ex_cfg (ex_pr 1 None T1)),
                       EmbedMessage (issue_embed ex_cfg (ex_issue 2 None False))],
            log = [ErrorLoading, CheckingRepository, NewPRDetected 1 (py ''Fix''),
                   NewIssueDetected 2 (py ''Bug'')] \<rparr>)"
proof -
  have a: "load_try (ex_world {1} {2} (Object (Ints {1}) NotIterable)) = Inl ()"
    by (simp add: load_try_def get_set_def ex_world_def)
  have l: "load_seen_items (ex_world {1} {2} (Object (Ints {1}) NotIterable))
       = \<lparr> seen_prs = {}, seen_issues = {}, SEEN_FILE = Object (Ints {1}) NotIterable,
           channel = [], log = [ErrorLoading] \<rparr>"
    by (simp add: load_seen_items_def load_try_def get_set_def ex_world_def)
  have c: "check_repository ex_fromisoformat ex_cfg
        (ex_env (Response 200 (Json [ex_pr 1 None T1]))
           (Response 200 (Json [ex_issue 2 None False])) Sent WriteOk)
        (load_seen_items (ex_world {1} {2} (Object (Ints {1}) NotIterable)))
       = (None,
          \<lparr> seen_prs = {1}, seen_issues = {2}, SEEN_FILE = Object (Ints {1}) (Ints {2}),
            channel = [EmbedMessage (pr_embed ex_cfg (ex_pr 1 None T1)),
                       EmbedMessage (issue_embed ex_cfg (ex_issue 2 None False))],
            log = [ErrorLoading, CheckingRepository, NewPRDetected 1 (py ''Fix''),
                   NewIssueDetected 2 (py ''Bug'')] \<rparr>)"
    unfolding l
    by (simp add: check_repository_def check_prs_def check_issues_def fetch_github_data_def
        mark_new_prs_def mark_new_issues_def create_pr_embed_eq create_issue_embed_eq
        send_discord_message_def save_seen_items_def Let_def)
       (simp add: ex_pr_def ex_issue_def)
  note t = load_failure_empties_seen [OF a]
  from a t [THEN conjunct2, THEN conjunct1] l c show ?thesis
    by (intro conjI)
qed

end
